theory Spec2Isabelle
  imports Main "HOL-Library.Sublist"
begin

section \<open>JavaScript values\<close>

text \<open>
  The services are JavaScript. A string is a \<open>char list\<close> of its bytes; the texts the code
  compares against are ASCII. A value that may be \<open>undefined\<close> is an \<open>option\<close>. A thrown
  exception is the left summand of a result, with the message the code later reads from
  \<open>error.message\<close>.
\<close>

datatype js_error = Error string | TypeError string

fun message :: "js_error \<Rightarrow> string" where
  "message (Error m) = m"
| "message (TypeError m) = m"

text \<open>Truthiness of an optional string: \<open>undefined\<close> and the empty string are falsy.\<close>

fun truthy :: "string option \<Rightarrow> bool" where
  "truthy None = False"
| "truthy (Some s) = (s \<noteq> [])"

text \<open>
  \<open>String.prototype.toLowerCase\<close>, on the ASCII letters. The markers searched for below are
  ASCII, and no other character lower-cases to a letter that could complete one of them.
\<close>

definition toLowerChar :: "char \<Rightarrow> char" where
  "toLowerChar c =
     (case map_of (zip ''ABCDEFGHIJKLMNOPQRSTUVWXYZ'' ''abcdefghijklmnopqrstuvwxyz'') c of
        Some l \<Rightarrow> l
      | None \<Rightarrow> c)"

definition toLowerCase :: "string \<Rightarrow> string" where
  "toLowerCase s = map toLowerChar s"

text \<open>\<open>s.includes(t)\<close>: \<open>t\<close> occurs in \<open>s\<close> as a contiguous run.\<close>

definition includes_str :: "string \<Rightarrow> string \<Rightarrow> bool" where
  "includes_str s t = sublist t s"

text \<open>A non-negative integer in a template literal: its decimal digits.\<close>

fun show_nat :: "nat \<Rightarrow> string" where
  "show_nat n =
     (if n < 10 then [''0123456789'' ! n]
      else show_nat (n div 10) @ [''0123456789'' ! (n mod 10)])"

declare show_nat.simps [simp del]

text \<open>\<open>Array.prototype.join\<close> and \<open>String.prototype.split\<close> on a one-character separator.\<close>

fun join :: "string \<Rightarrow> string list \<Rightarrow> string" where
  "join sep [] = []"
| "join sep [x] = x"
| "join sep (x # y # ys) = x @ sep @ join sep (y # ys)"

fun split_on :: "char \<Rightarrow> string \<Rightarrow> string list" where
  "split_on c [] = [[]]"
| "split_on c (x # xs) =
     (if x = c then [] # split_on c xs
      else (case split_on c xs of
              [] \<Rightarrow> [[x]]
            | y # ys \<Rightarrow> (x # y) # ys))"

text \<open>\<open>model.split(':')[1]\<close>: the second piece, undefined when there is none.\<close>

definition split_second :: "string \<Rightarrow> string option" where
  "split_second s =
     (case split_on CHR '':'' s of
        a # b # rest \<Rightarrow> Some b
      | _ \<Rightarrow> None)"

text \<open>
  The lookup tables of the code are object literals, so \<open>table[key]\<close> also finds the
  properties every object inherits from \<open>Object.prototype\<close>. Their values are functions (and,
  for \<open>__proto__\<close>, the prototype itself): all truthy, none with a \<open>width\<close> or \<open>height\<close>.
  \<open>prototype_text\<close> is what such a value becomes when it is appended to a string.
\<close>

definition object_prototype_keys :: "string list" where
  "object_prototype_keys =
     [''constructor'', ''toString'', ''toLocaleString'', ''valueOf'', ''hasOwnProperty'',
      ''isPrototypeOf'', ''propertyIsEnumerable'', ''__proto__'', ''__defineGetter__'',
      ''__defineSetter__'', ''__lookupGetter__'', ''__lookupSetter__'']"

definition prototype_text :: "string \<Rightarrow> string" where
  "prototype_text k =
     (if k = ''__proto__'' then ''[object Object]''
      else ''function '' @ (if k = ''constructor'' then ''Object'' else k) @ ''() { [native code] }'')"

section \<open>Prompt Builder (generation.service)\<close>

text \<open>
  The fields \<open>buildPrompt\<close> and the refinement stage read. The routes pass the whole
  generation parameters; \<open>generateDirectAnimation\<close> passes a context object of its own,
  which has no prompt.
\<close>

record prompt_context =
  prompt :: "string option"
  type :: string
  style :: string
  viewpoint :: string
  colors :: "string list option"
  dimensions :: "string option"
  aspectRatio :: string
  spriteType :: "string option"
  sceneType :: "string option"

record params = prompt_context +
  quantity :: int
  referenceImage :: "string option"
  poseImage :: "string option"

text \<open>
  What \<open>ratioMap[aspectRatio] || { width: 1024, height: 1024 }\<close> evaluates to: an entry of
  the table, a value inherited from \<open>Object.prototype\<close>, or the default.
\<close>

datatype dims = Dims nat nat | Inherited

definition ratioMap :: "(string \<times> dims) list" where
  "ratioMap =
     [(''2:3'', Dims 688 1024),
      (''1:1'', Dims 1024 1024),
      (''9:16'', Dims 576 1024),
      (''4:3'', Dims 1024 768),
      (''3:2'', Dims 1024 688),
      (''16:9'', Dims 1024 576)]"

definition getImageDimensions :: "string \<Rightarrow> dims" where
  "getImageDimensions r =
     (case map_of ratioMap r of
        Some d \<Rightarrow> d
      | None \<Rightarrow> if r \<in> set object_prototype_keys then Inherited else Dims 1024 1024)"

text \<open>The destructured \<open>width\<close> and \<open>height\<close>, as the template literal prints them.\<close>

fun width_text :: "dims \<Rightarrow> string" where
  "width_text (Dims w h) = show_nat w"
| "width_text Inherited = ''undefined''"

fun height_text :: "dims \<Rightarrow> string" where
  "height_text (Dims w h) = show_nat h"
| "height_text Inherited = ''undefined''"

definition partial_markers :: "string list" where
  "partial_markers =
     [''half body'', ''half-body'', ''upper body'', ''above chest'', ''portrait'', ''bust'',
      ''headshot'', ''face only'', ''torso'']"

text \<open>\<open>prompt.toLowerCase()\<close> throws on an \<open>undefined\<close> prompt.\<close>

definition wantsPartialCharacter :: "string option \<Rightarrow> js_error + bool" where
  "wantsPartialCharacter p =
     (case p of
        None \<Rightarrow> Inl (TypeError ''Cannot read properties of undefined (reading 'toLowerCase')'')
      | Some s \<Rightarrow> Inr (list_ex (includes_str (toLowerCase s)) partial_markers))"

definition full_body_clause :: string where
  "full_body_clause =
     ''IMPORTANT: Generate a FULL-BODY character showing the entire figure from head to feet. The character must be fully visible and standing, NOT cropped at the chest, waist, or knees. ''"

definition viewpointDescriptions :: "(string \<times> string) list" where
  "viewpointDescriptions =
     [(''front'', ''Show from a front-facing view. ''),
      (''back'', ''Show from behind/back view. ''),
      (''side'', ''Show from a side profile view. ''),
      (''top_down'', ''Show from a top-down/bird's eye view. ''),
      (''isometric'', ''Show in isometric perspective (45-degree angle). '')]"

text \<open>\<open>viewpointDescriptions[viewpoint] || ''\<close>, appended to the prompt.\<close>

definition viewpoint_text :: "string \<Rightarrow> string" where
  "viewpoint_text v =
     (case map_of viewpointDescriptions v of
        Some t \<Rightarrow> t
      | None \<Rightarrow> if v \<in> set object_prototype_keys then prototype_text v else [])"

text \<open>
  The parts of \<open>buildPrompt\<close>, in the order the code appends them. The type context is the
  only part that can throw: it reads the prompt when the sprite is not an object.
\<close>

definition style_prefix :: "'a prompt_context_scheme \<Rightarrow> string" where
  "style_prefix p =
     (if style p = ''pixel_art''
      then ''Create a pixel art style image. Use clear pixel boundaries, limited color palette, and retro game aesthetic. ''
      else ''Create a 2D flat style image with clean lines, solid colors, and modern vector-like appearance. '')"

definition sprite_context :: "'a prompt_context_scheme \<Rightarrow> string" where
  "sprite_context p =
     ''This is a game sprite '' @ (if spriteType p = Some ''object'' then ''object/item'' else ''character'')
       @ '' that should be suitable for use in a 2D video game. ''
       @ ''The sprite should have a transparent or solid color background that can be easily removed. ''"

definition scene_context :: "'a prompt_context_scheme \<Rightarrow> string" where
  "scene_context p =
     ''This is an '' @ (if sceneType p = Some ''indoor'' then ''indoor'' else ''outdoor'')
       @ '' game scene or background environment for a 2D video game. ''"

definition type_context :: "'a prompt_context_scheme \<Rightarrow> js_error + string" where
  "type_context p =
     (if type p = ''sprite'' then
        (if spriteType p \<noteq> Some ''object'' then
           (case wantsPartialCharacter (prompt p) of
              Inl e \<Rightarrow> Inl e
            | Inr partial \<Rightarrow>
                Inr (sprite_context p @ (if \<not> partial then full_body_clause else [])))
         else Inr (sprite_context p))
      else Inr (scene_context p))"

definition aspect_text :: "'a prompt_context_scheme \<Rightarrow> string" where
  "aspect_text p =
     (let d = getImageDimensions (aspectRatio p)
      in ''The image should be '' @ width_text d @ ''x'' @ height_text d @ '' pixels (''
           @ aspectRatio p @ '' aspect ratio). '')"

definition colors_text :: "'a prompt_context_scheme \<Rightarrow> string" where
  "colors_text p =
     (case colors p of
        None \<Rightarrow> []
      | Some cs \<Rightarrow>
          if cs \<noteq> []
          then ''Use these colors prominently in the design: '' @ join '', '' cs @ ''. ''
          else [])"

definition dimensions_text :: "'a prompt_context_scheme \<Rightarrow> string" where
  "dimensions_text p =
     (case dimensions p of
        None \<Rightarrow> []
      | Some d \<Rightarrow>
          if d \<noteq> [] \<and> type p = ''sprite''
          then ''The sprite should be designed to look good at '' @ d @ '' pixel dimensions. ''
          else [])"

definition prompt_text :: "'a prompt_context_scheme \<Rightarrow> string" where
  "prompt_text p = (case prompt p of None \<Rightarrow> ''undefined'' | Some s \<Rightarrow> s)"

definition quality_suffix :: string where
  "quality_suffix = '' High quality, detailed, game-ready asset.''"

definition buildPrompt :: "'a prompt_context_scheme \<Rightarrow> js_error + string" where
  "buildPrompt p =
     (case type_context p of
        Inl e \<Rightarrow> Inl e
      | Inr ctx \<Rightarrow>
          Inr (style_prefix p @ ctx @ viewpoint_text (viewpoint p) @ aspect_text p
               @ colors_text p @ dimensions_text p @ prompt_text p @ quality_suffix))"

section \<open>The network\<close>

text \<open>
  Every \<open>fetch\<close> of the services goes to a provider. The world holds the answers the
  providers will give, in the order the requests are made, and the log of the requests made
  so far. An answer is a rejected promise (the transport failed, or the body could not be
  read) or an HTTP response. When no answer is left the awaited promise never settles: the
  calling function does not return, which is the value \<open>None\<close>.
\<close>

datatype js_output = NoOutput | OutStr string | OutArr "string list"

record prediction =
  pid :: string
  status :: string
  perror :: "string option"
  poutput :: js_output
  urls_get :: "string option"

record inline_data =
  mimeType :: "string option"
  data64 :: string

text \<open>
  The parsed JSON of a response: a prediction object, a Gemini answer (the parts of its first
  candidate, when it has any), or nothing that parses.
\<close>

datatype body = NoJson | PredictionJson prediction | GeminiJson "inline_data option list option"

record response =
  ok :: bool
  http_status :: nat
  json :: body
  json_text :: string
  content_type :: "string option"
  base64 :: string

datatype fetch_result = Rejects string | Responds response

text \<open>
  The inputs the code sends to the polling provider. The prompt-refinement input is built from
  the user prompt and the context; its instruction text is not expanded here. Of the
  text-to-image input the fields are the prompt, \<open>num_images\<close> and the reference image.
\<close>

record direct_payload =
  payload_prompt :: "string option"
  payload_style :: string
  payload_width :: nat
  payload_height :: nat
  payload_return_spritesheet :: bool
  payload_bypass_prompt_expansion :: bool
  payload_seed :: "nat option"
  payload_input_image :: "string option"

record sheet_input =
  sheet_prompt :: string
  sheet_style :: string
  sheet_width :: nat
  sheet_height :: nat
  sheet_input_image :: "string option"
  sheet_seed :: nat

datatype replicate_input =
    RefineInput string prompt_context
  | QwenInput string string
  | RdPlusInput string int "string option"
  | FrameInput string "string option"
  | DirectInput direct_payload
  | SheetInput sheet_input

datatype req_body =
    NoBody
  | PredictionBody "string option" replicate_input
  | GeminiBody string "(string \<times> string) list"

record request =
  verb :: string
  url :: string
  authorization :: "string option"
  payload :: req_body

record world =
  script :: "fetch_result list"
  log :: "request list"

definition fetch :: "request \<Rightarrow> world \<Rightarrow> (fetch_result \<times> world) option" where
  "fetch r w =
     (case script w of
        [] \<Rightarrow> None
      | x # xs \<Rightarrow> Some (x, \<lparr> script = xs, log = log w @ [r] \<rparr>))"

text \<open>
  An asynchronous function: from a world it throws or returns, in a later world, or never
  settles.
\<close>

type_synonym 'a io = "world \<Rightarrow> ((js_error + 'a) \<times> world) option"

definition return_io :: "'a \<Rightarrow> 'a io" where
  "return_io x = (\<lambda>w. Some (Inr x, w))"

definition throw_io :: "js_error \<Rightarrow> 'a io" where
  "throw_io e = (\<lambda>w. Some (Inl e, w))"

definition bind_io :: "'a io \<Rightarrow> ('a \<Rightarrow> 'b io) \<Rightarrow> 'b io" where
  "bind_io m f =
     (\<lambda>w. case m w of
            None \<Rightarrow> None
          | Some (Inl e, w') \<Rightarrow> Some (Inl e, w')
          | Some (Inr x, w') \<Rightarrow> f x w')"

definition catch_io :: "'a io \<Rightarrow> (js_error \<Rightarrow> 'a io) \<Rightarrow> 'a io" where
  "catch_io m h =
     (\<lambda>w. case m w of
            None \<Rightarrow> None
          | Some (Inl e, w') \<Rightarrow> h e w'
          | Some (Inr x, w') \<Rightarrow> Some (Inr x, w'))"

definition lift_io :: "js_error + 'a \<Rightarrow> 'a io" where
  "lift_io r = (case r of Inl e \<Rightarrow> throw_io e | Inr x \<Rightarrow> return_io x)"

text \<open>\<open>await fetch(...)\<close>: a rejected promise is thrown.\<close>

definition await_fetch :: "request \<Rightarrow> response io" where
  "await_fetch r =
     (\<lambda>w. case fetch r w of
            None \<Rightarrow> None
          | Some (Rejects m, w') \<Rightarrow> Some (Inl (Error m), w')
          | Some (Responds resp, w') \<Rightarrow> Some (Inr resp, w'))"

text \<open>
  \<open>await response.json()\<close> read as a prediction. A body that is not JSON throws; an object
  of another shape has none of the fields the code reads.
\<close>

definition no_prediction :: prediction where
  "no_prediction =
     \<lparr> pid = ''undefined'', status = [], perror = None, poutput = NoOutput, urls_get = None \<rparr>"

definition json_prediction :: "response \<Rightarrow> js_error + prediction" where
  "json_prediction r =
     (case json r of
        NoJson \<Rightarrow> Inl (Error ''Unexpected end of JSON input'')
      | PredictionJson p \<Rightarrow> Inr p
      | GeminiJson g \<Rightarrow> Inr no_prediction)"

text \<open>\<open>JSON.stringify(await response.json().catch(() => ({})))\<close>, for an error message.\<close>

definition error_json_text :: "response \<Rightarrow> string" where
  "error_json_text r = (case json r of NoJson \<Rightarrow> ''{}'' | _ \<Rightarrow> json_text r)"

section \<open>Provider Gateway, polling variant (generation.service)\<close>

definition terminal :: "prediction \<Rightarrow> bool" where
  "terminal p = (status p = ''succeeded'' \<or> status p = ''failed'')"

definition poll_request :: "string \<Rightarrow> prediction \<Rightarrow> request" where
  "poll_request apiToken p =
     \<lparr> verb = ''GET'',
       url = (if truthy (urls_get p) then the (urls_get p)
              else ''https://api.replicate.com/v1/predictions/'' @ pid p),
       authorization = Some (''Token '' @ apiToken),
       payload = NoBody \<rparr>"

text \<open>
  The polling loop, as \<open>callReplicate\<close>, \<open>callReplicateAnimation\<close> and
  \<open>generateAnimationWithReplicate\<close> each write it:
  \<^verbatim>\<open>while (prediction.status !== 'succeeded' && prediction.status !== 'failed') { ... }\<close>.
  Each round makes one request (\<open>mk\<close> builds it from the current prediction) and replaces
  the prediction by the answer. The one-second sleep between rounds is not modelled.
\<close>

function poll_loop :: "(prediction \<Rightarrow> request) \<Rightarrow> prediction \<Rightarrow> prediction io" where
  "poll_loop mk p w =
     (if \<not> terminal p then
        (case fetch (mk p) w of
           None \<Rightarrow> None
         | Some (Rejects m, w') \<Rightarrow> Some (Inl (Error m), w')
         | Some (Responds r, w') \<Rightarrow>
             (case json_prediction r of
                Inl e \<Rightarrow> Some (Inl e, w')
              | Inr p' \<Rightarrow> poll_loop mk p' w'))
      else Some (Inr p, w))"
  by pat_completeness auto
termination
proof (relation "measure (\<lambda>(mk, p, w). length (script w))")
  show "wf (measure (\<lambda>(mk, p, w). length (script w)))"
    by simp
next
  fix mk :: "prediction \<Rightarrow> request" and p :: prediction and w :: world
    and x2 :: "fetch_result \<times> world" and x1 :: fetch_result and w' :: world
    and r :: response and p' :: prediction
  assume "fetch (mk p) w = Some x2" and "(x1, w') = x2"
  then show "((mk, p', w'), mk, p, w) \<in> measure (\<lambda>(mk, p, w). length (script w))"
    by (auto simp: fetch_def split: list.splits)
qed

declare poll_loop.simps [simp del]

text \<open>
  \<open>callReplicate\<close>. Before the request it awaits, the function first posts the input to the
  generic endpoint (the statement left at the top of its body); that answer is never read, but
  a rejected promise there is thrown like any other.
\<close>

definition legacy_request :: "string \<Rightarrow> string \<Rightarrow> replicate_input \<Rightarrow> request" where
  "legacy_request apiToken model input =
     \<lparr> verb = ''POST'',
       url = ''https://api.replicate.com/v1/predictions'',
       authorization = Some (''Token '' @ apiToken),
       payload = PredictionBody
         (if CHR '':'' \<in> set model then split_second model else None) input \<rparr>"

definition create_request :: "string \<Rightarrow> string \<Rightarrow> replicate_input \<Rightarrow> request" where
  "create_request apiToken model input =
     (if CHR ''/'' \<in> set model then
        \<lparr> verb = ''POST'',
          url = ''https://api.replicate.com/v1/models/'' @ model @ ''/predictions'',
          authorization = Some (''Token '' @ apiToken),
          payload = PredictionBody None input \<rparr>
      else if CHR '':'' \<in> set model then
        \<lparr> verb = ''POST'',
          url = ''https://api.replicate.com/v1/predictions'',
          authorization = Some (''Token '' @ apiToken),
          payload = PredictionBody (split_second model) input \<rparr>
      else
        \<lparr> verb = ''POST'',
          url = ''https://api.replicate.com/v1/predictions'',
          authorization = Some (''Token '' @ apiToken),
          payload = PredictionBody (Some model) input \<rparr>)"

definition job_error :: "prediction \<Rightarrow> string \<Rightarrow> js_error" where
  "job_error p fallback = Error (if truthy (perror p) then the (perror p) else fallback)"

definition callReplicate :: "string \<Rightarrow> string \<Rightarrow> replicate_input \<Rightarrow> js_output io" where
  "callReplicate apiToken model input =
     bind_io (await_fetch (legacy_request apiToken model input)) (\<lambda>createResponse.
     bind_io (await_fetch (create_request apiToken model input)) (\<lambda>startForRealResponse.
       if \<not> ok startForRealResponse then
         throw_io (Error (''Replicate API error: '' @ show_nat (http_status startForRealResponse)
                          @ '' - '' @ error_json_text startForRealResponse))
       else
         bind_io (lift_io (json_prediction startForRealResponse)) (\<lambda>started.
         bind_io (poll_loop (poll_request apiToken) started) (\<lambda>prediction.
           if status prediction = ''failed''
           then throw_io (job_error prediction ''Replicate generation failed'')
           else return_io (poutput prediction)))))"

section \<open>Prompt Refinement Stage (generation.service)\<close>

text \<open>
  \<open>refinePromptWithIntelligence\<close>. The partial-body check runs before the \<open>try\<close>; inside
  it the text model is called, and \<open>result || userPrompt\<close> is returned. The \<open>catch\<close>
  returns \<open>buildPrompt(context)\<close>: whatever that call throws, the \<open>catch\<close> block throws.
\<close>

definition refined_text :: "js_output \<Rightarrow> string option" where
  "refined_text out =
     (case out of
        OutArr xs \<Rightarrow> Some (concat xs)
      | OutStr s \<Rightarrow> Some s
      | NoOutput \<Rightarrow> None)"

definition refinePromptWithIntelligence ::
  "string option \<Rightarrow> 'a prompt_context_scheme \<Rightarrow> string \<Rightarrow> string io" where
  "refinePromptWithIntelligence userPrompt ctx apiToken =
     bind_io (lift_io (wantsPartialCharacter userPrompt)) (\<lambda>isPartialCharacter.
       case userPrompt of
         None \<Rightarrow> throw_io (TypeError ''Cannot read properties of undefined (reading 'toLowerCase')'')
       | Some u \<Rightarrow>
           catch_io
             (bind_io (callReplicate apiToken ''google/gemini-2.5-flash''
                         (RefineInput u (prompt_context.truncate ctx))) (\<lambda>out.
                let result = refined_text out
                in return_io (if truthy result then the result else u)))
             (\<lambda>e. lift_io (buildPrompt ctx)))"

section \<open>Generation Orchestrator (generation.service)\<close>

record gen_result =
  success :: bool
  images :: "string list"
  error :: "string option"
  provider :: "string option"

text \<open>\<open>Array.isArray(output) ? output : [output]\<close>; a missing output is one undefined URL.\<close>

definition as_array :: "js_output \<Rightarrow> string option list" where
  "as_array out =
     (case out of
        OutArr xs \<Rightarrow> map Some xs
      | OutStr s \<Rightarrow> [Some s]
      | NoOutput \<Rightarrow> [None])"

text \<open>
  One round of the loops that fetch the outputs: get the URL, encode the bytes, and build the
  data URL with the answer's content type or the loop's default. \<open>fetch(undefined)\<close> throws
  before any request is made.
\<close>

definition image_request :: "string \<Rightarrow> request" where
  "image_request u = \<lparr> verb = ''GET'', url = u, authorization = None, payload = NoBody \<rparr>"

definition fetch_data_url :: "string \<Rightarrow> string option \<Rightarrow> string io" where
  "fetch_data_url default_mime u =
     (case u of
        None \<Rightarrow> throw_io (TypeError ''Failed to parse URL from undefined'')
      | Some a \<Rightarrow>
          bind_io (await_fetch (image_request a)) (\<lambda>imageResponse.
            return_io (''data:''
              @ (if truthy (content_type imageResponse) then the (content_type imageResponse)
                 else default_mime)
              @ '';base64,'' @ base64 imageResponse)))"

fun fetch_all :: "string \<Rightarrow> string option list \<Rightarrow> string list \<Rightarrow> string list io" where
  "fetch_all default_mime [] imgs = return_io imgs"
| "fetch_all default_mime (u # us) imgs =
     bind_io (fetch_data_url default_mime u) (\<lambda>img. fetch_all default_mime us (imgs @ [img]))"

definition generateWithQwen ::
  "string \<Rightarrow> string \<Rightarrow> params \<Rightarrow> string \<Rightarrow> string option list io" where
  "generateWithQwen refinedPrompt pose ctx apiToken =
     bind_io (callReplicate apiToken ''qwen/qwen-image-edit-plus'' (QwenInput refinedPrompt pose))
       (\<lambda>out. return_io (as_array out))"

definition failure :: "string \<Rightarrow> js_error \<Rightarrow> gen_result io" where
  "failure prov e =
     return_io \<lparr> success = False, images = [], error = Some (message e), provider = Some prov \<rparr>"

definition finish :: "string \<Rightarrow> string list \<Rightarrow> gen_result io" where
  "finish prov imgs =
     (if imgs = [] then throw_io (Error ''No images generated'')
      else return_io \<lparr> success = True, images = imgs, error = None, provider = Some prov \<rparr>)"

text \<open>
  \<open>generateWithReplicate\<close>: refine the prompt, then the image-edit model when a pose image
  came with the request, the text-to-image model otherwise (\<open>num_images: params.quantity\<close>).
  Everything thrown inside is caught and returned as a failure.
\<close>

definition generateWithReplicate :: "params \<Rightarrow> string \<Rightarrow> string option \<Rightarrow> gen_result io" where
  "generateWithReplicate ps apiToken modelId =
     catch_io
       (bind_io (refinePromptWithIntelligence (prompt ps) ps apiToken) (\<lambda>finalPrompt.
        bind_io
          (if truthy (poseImage ps) then
             bind_io (generateWithQwen finalPrompt (the (poseImage ps)) ps apiToken) (\<lambda>qwenOutputs.
               fetch_all ''image/webp'' qwenOutputs [])
           else
             bind_io (callReplicate apiToken ''retro-diffusion/rd-plus''
                        (RdPlusInput finalPrompt (quantity ps)
                           (if truthy (referenceImage ps) then referenceImage ps else None)))
               (\<lambda>out. fetch_all ''image/png'' (as_array out) []))
          (finish ''replicate'')))
       (failure ''replicate'')"

text \<open>
  The regular expression \<open>/data:([^;]+);base64,(.+)/\<close>, matched at the first position where
  it fits: the media type is a non-empty run without a semicolon, the data a non-empty run up
  to the end of the line.
\<close>

definition match_here :: "string \<Rightarrow> (string \<times> string) option" where
  "match_here s =
     (if prefix ''data:'' s then
        (let t = drop 5 s;
             m = takeWhile (\<lambda>c. c \<noteq> CHR '';'') t;
             r = dropWhile (\<lambda>c. c \<noteq> CHR '';'') t;
             d = takeWhile (\<lambda>c. c \<noteq> CHR 0x0A \<and> c \<noteq> CHR 0x0D) (drop 8 r)
         in if m \<noteq> [] \<and> prefix '';base64,'' r \<and> d \<noteq> [] then Some (m, d) else None)
      else None)"

fun data_url_match :: "string \<Rightarrow> (string \<times> string) option" where
  "data_url_match [] = None"
| "data_url_match (c # cs) =
     (case match_here (c # cs) of
        Some r \<Rightarrow> Some r
      | None \<Rightarrow> data_url_match cs)"

text \<open>The inline image parts \<open>buildParts\<close> adds for one image parameter.\<close>

definition inline_parts :: "string option \<Rightarrow> (string \<times> string) list" where
  "inline_parts img =
     (case img of
        None \<Rightarrow> []
      | Some s \<Rightarrow>
          if s \<noteq> [] \<and> prefix ''data:'' s
          then (case data_url_match s of Some r \<Rightarrow> [r] | None \<Rightarrow> [])
          else [])"

definition gemini_url :: "string \<Rightarrow> string" where
  "gemini_url apiKey =
     ''https://generativelanguage.googleapis.com/v1beta/models/gemini-2.0-flash-exp-image-generation:generateContent?key=''
       @ apiKey"

definition gemini_request :: "string \<Rightarrow> string \<Rightarrow> (string \<times> string) list \<Rightarrow> request" where
  "gemini_request apiKey txt parts =
     \<lparr> verb = ''POST'', url = gemini_url apiKey, authorization = None,
       payload = GeminiBody txt parts \<rparr>"

text \<open>
  The first part of the first candidate whose inline data has an \<open>image/\<close> media type, as
  the data URL the loops push.
\<close>

fun first_image :: "inline_data option list \<Rightarrow> string option" where
  "first_image [] = None"
| "first_image (None # ps) = first_image ps"
| "first_image (Some d # ps) =
     (case mimeType d of
        None \<Rightarrow> first_image ps
      | Some m \<Rightarrow>
          if prefix ''image/'' m then Some (''data:'' @ m @ '';base64,'' @ data64 d)
          else first_image ps)"

definition candidate_image :: "body \<Rightarrow> string option" where
  "candidate_image b =
     (case b of
        GeminiJson (Some ps) \<Rightarrow> first_image ps
      | _ \<Rightarrow> None)"

definition json_data :: "response \<Rightarrow> js_error + body" where
  "json_data r =
     (case json r of
        NoJson \<Rightarrow> Inl (Error ''Unexpected end of JSON input'')
      | b \<Rightarrow> Inr b)"

text \<open>The loop \<open>for (let i = 0; i < params.quantity; i++)\<close> of \<open>generateWithGemini\<close>.\<close>

definition variation_text :: "nat \<Rightarrow> string" where
  "variation_text i =
     (if i > 0 then '' Variation '' @ show_nat (i + 1) @ '', slightly different from previous versions.''
      else [])"

fun gemini_rounds :: "params \<Rightarrow> string \<Rightarrow> string \<Rightarrow> nat list \<Rightarrow> string list \<Rightarrow> string list io" where
  "gemini_rounds ps apiKey fullPrompt [] imgs = return_io imgs"
| "gemini_rounds ps apiKey fullPrompt (i # rest) imgs =
     bind_io (await_fetch (gemini_request apiKey (fullPrompt @ variation_text i)
                (inline_parts (referenceImage ps) @ inline_parts (poseImage ps)))) (\<lambda>response.
       if \<not> ok response then
         throw_io (Error (''Gemini API error: '' @ show_nat (http_status response) @ '' - ''
                          @ error_json_text response))
       else
         bind_io (lift_io (json_data response)) (\<lambda>d.
           gemini_rounds ps apiKey fullPrompt rest
             (case candidate_image d of None \<Rightarrow> imgs | Some img \<Rightarrow> imgs @ [img])))"

definition generateWithGemini :: "params \<Rightarrow> string \<Rightarrow> gen_result io" where
  "generateWithGemini ps apiKey =
     catch_io
       (bind_io (lift_io (buildPrompt ps)) (\<lambda>fullPrompt.
        bind_io (gemini_rounds ps apiKey fullPrompt [0 ..< nat (quantity ps)] [])
          (finish ''gemini'')))
       (failure ''gemini'')"

text \<open>The caller's options and the platform's environment variables.\<close>

record options =
  apiKey :: "string option"
  opt_provider :: "string option"
  useOwnKey :: bool

record env =
  REPLICATE_API_TOKEN :: "string option"
  REPLICATE_MODEL_ID :: "string option"
  GEMINI_API_KEY :: "string option"

definition generateImages :: "params \<Rightarrow> options \<Rightarrow> env \<Rightarrow> gen_result io" where
  "generateImages ps opts ev =
     (if useOwnKey opts \<and> truthy (apiKey opts) then
        (if opt_provider opts = Some ''gemini''
         then generateWithGemini ps (the (apiKey opts))
         else generateWithReplicate ps (the (apiKey opts)) None)
      else if truthy (REPLICATE_API_TOKEN ev) then
        generateWithReplicate ps (the (REPLICATE_API_TOKEN ev)) (REPLICATE_MODEL_ID ev)
      else if truthy (GEMINI_API_KEY ev) \<and> GEMINI_API_KEY ev \<noteq> Some ''your_gemini_api_key_here'' then
        generateWithGemini ps (the (GEMINI_API_KEY ev))
      else
        return_io \<lparr> success = False, images = [],
          error = Some ''No API key configured. Please add your own API key in settings or contact support.'',
          provider = None \<rparr>)"

section \<open>Animation frames (generation.service)\<close>

record anim_params =
  characterImage :: "string option"
  viewType :: string
  direction :: string
  animationType :: "string option"
  frameDescriptions :: "string list"

record frames_result =
  frames_success :: bool
  frames :: "string list"
  frames_error :: "string option"
  frames_provider :: "string option"

text \<open>A value that may be undefined, inside a template literal.\<close>

definition template :: "string option \<Rightarrow> string" where
  "template v = (case v of None \<Rightarrow> ''undefined'' | Some s \<Rightarrow> s)"

definition viewDescriptions :: "(string \<times> string) list" where
  "viewDescriptions =
     [(''side'', ''Maintain the side-scrolling 2D view. ''),
      (''isometric'', ''Maintain the isometric 45-degree angle view. ''),
      (''top_down'', ''Maintain the top-down bird's eye view. '')]"

definition directionDescriptions :: "(string \<times> string) list" where
  "directionDescriptions =
     [(''right'', ''Character should be facing right. ''),
      (''left'', ''Character should be facing left. ''),
      (''up'', ''Character should be facing up/away. ''),
      (''down'', ''Character should be facing down/toward viewer. ''),
      (''up_right'', ''Character should be facing diagonally up-right. ''),
      (''up_left'', ''Character should be facing diagonally up-left. ''),
      (''down_right'', ''Character should be facing diagonally down-right. ''),
      (''down_left'', ''Character should be facing diagonally down-left. '')]"

text \<open>\<open>table[key] || fallback\<close> for a table of non-empty texts.\<close>

definition described :: "(string \<times> string) list \<Rightarrow> string \<Rightarrow> string \<Rightarrow> string" where
  "described table k fallback =
     (case map_of table k of
        Some t \<Rightarrow> t
      | None \<Rightarrow> if k \<in> set object_prototype_keys then prototype_text k else fallback)"

definition buildAnimationFramePrompt :: "anim_params \<Rightarrow> nat \<Rightarrow> nat \<Rightarrow> string" where
  "buildAnimationFramePrompt ps frameIndex totalFrames =
     ''You are given a reference image of a game character sprite. ''
     @ ''Generate a new frame showing this EXACT same character in a different pose for animation. ''
     @ ''CRITICAL: The character must look IDENTICAL - same art style, same colors, same outfit, same proportions. ''
     @ ''Only the pose/position changes. ''
     @ [CHR 0x0A, CHR 0x0A] @ ''This is frame '' @ show_nat (frameIndex + 1) @ '' of ''
     @ show_nat totalFrames @ '' for a '' @ [CHR 0x22] @ template (animationType ps)
     @ [CHR 0x22] @ '' animation sequence. ''
     @ described viewDescriptions (viewType ps) ''Maintain the isometric 45-degree angle view. ''
     @ described directionDescriptions (direction ps) ''Character should be facing right. ''
     @ (if frameIndex < length (frameDescriptions ps) \<and> frameDescriptions ps ! frameIndex \<noteq> []
        then [CHR 0x0A, CHR 0x0A] @ ''POSE FOR THIS FRAME: '' @ frameDescriptions ps ! frameIndex @ ''. ''
        else [])
     @ [CHR 0x0A, CHR 0x0A]
     @ ''IMPORTANT: Keep EXACT same character design, colors, art style. Single character, centered, transparent background. ''"

text \<open>\<open>model?.includes(':') ? model.split(':')[1] : model\<close>.\<close>

definition version_of :: "string option \<Rightarrow> string option" where
  "version_of model =
     (case model of
        None \<Rightarrow> None
      | Some m \<Rightarrow> if CHR '':'' \<in> set m then split_second m else Some m)"

definition frame_create_request :: "string \<Rightarrow> string option \<Rightarrow> string \<Rightarrow> string option \<Rightarrow> request" where
  "frame_create_request apiToken model framePrompt img =
     \<lparr> verb = ''POST'', url = ''https://api.replicate.com/v1/predictions'',
       authorization = Some (''Token '' @ apiToken),
       payload = PredictionBody (version_of model) (FrameInput framePrompt img) \<rparr>"

definition frame_poll_request :: "string \<Rightarrow> prediction \<Rightarrow> request" where
  "frame_poll_request apiToken p =
     \<lparr> verb = ''GET'', url = ''https://api.replicate.com/v1/predictions/'' @ pid p,
       authorization = Some (''Token '' @ apiToken), payload = NoBody \<rparr>"

text \<open>
  What one frame adds to \<open>frames\<close>: nothing when the job has no output (\<open>if (result.output)\<close>)
  or an empty array of outputs, the first output's picture otherwise.
\<close>

definition frame_image :: "js_output \<Rightarrow> string list io" where
  "frame_image out =
     (case out of
        NoOutput \<Rightarrow> return_io []
      | OutStr s \<Rightarrow>
          if s = [] then return_io []
          else bind_io (await_fetch (image_request s)) (\<lambda>imageResponse.
                 return_io [''data:image/png;base64,'' @ base64 imageResponse])
      | OutArr [] \<Rightarrow> return_io []
      | OutArr (u # us) \<Rightarrow>
          bind_io (await_fetch (image_request u)) (\<lambda>imageResponse.
            return_io [''data:image/png;base64,'' @ base64 imageResponse]))"

fun replicate_frames ::
  "anim_params \<Rightarrow> string \<Rightarrow> string option \<Rightarrow> nat \<Rightarrow> nat list \<Rightarrow> string list \<Rightarrow> string list io" where
  "replicate_frames ps apiToken model totalFrames [] acc = return_io acc"
| "replicate_frames ps apiToken model totalFrames (i # rest) acc =
     bind_io (await_fetch (frame_create_request apiToken model
                (buildAnimationFramePrompt ps i totalFrames) (characterImage ps))) (\<lambda>createResponse.
       if \<not> ok createResponse then
         throw_io (Error (''Replicate API error: '' @ show_nat (http_status createResponse)))
       else
         bind_io (lift_io (json_prediction createResponse)) (\<lambda>created.
         bind_io (poll_loop (frame_poll_request apiToken) created) (\<lambda>result.
           if status result = ''failed'' then
             throw_io (Error (''Frame '' @ show_nat (i + 1) @ '' generation failed''))
           else
             bind_io (frame_image (poutput result)) (\<lambda>new.
               replicate_frames ps apiToken model totalFrames rest (acc @ new)))))"

definition frames_failure :: "string \<Rightarrow> js_error \<Rightarrow> frames_result io" where
  "frames_failure prov e =
     return_io \<lparr> frames_success = False, frames = [], frames_error = Some (message e),
       frames_provider = Some prov \<rparr>"

definition frames_done :: "string \<Rightarrow> string list \<Rightarrow> frames_result io" where
  "frames_done prov fs =
     return_io \<lparr> frames_success = True, frames = fs, frames_error = None,
       frames_provider = Some prov \<rparr>"

definition generateAnimationWithReplicate ::
  "anim_params \<Rightarrow> string \<Rightarrow> string option \<Rightarrow> env \<Rightarrow> frames_result io" where
  "generateAnimationWithReplicate ps apiToken modelId ev =
     catch_io
       (let totalFrames = length (frameDescriptions ps);
            model = (if truthy modelId then modelId else REPLICATE_MODEL_ID ev)
        in bind_io (replicate_frames ps apiToken model totalFrames [0 ..< totalFrames] [])
             (frames_done ''replicate''))
       (frames_failure ''replicate'')"

fun gemini_frames ::
  "anim_params \<Rightarrow> string \<Rightarrow> string \<times> string \<Rightarrow> nat \<Rightarrow> nat list \<Rightarrow> string list \<Rightarrow> string list io" where
  "gemini_frames ps key img totalFrames [] acc = return_io acc"
| "gemini_frames ps key img totalFrames (i # rest) acc =
     bind_io (await_fetch (gemini_request key (buildAnimationFramePrompt ps i totalFrames) [img]))
       (\<lambda>response.
         if \<not> ok response then
           throw_io (Error (''Failed to generate frame '' @ show_nat (i + 1) @ '': ''
                            @ show_nat (http_status response)))
         else
           bind_io (lift_io (json_data response)) (\<lambda>d.
             case candidate_image d of
               None \<Rightarrow> throw_io (Error (''No image generated for frame '' @ show_nat (i + 1)))
             | Some frameImage \<Rightarrow>
                 gemini_frames ps key img totalFrames rest (acc @ [frameImage])))"

definition generateAnimationWithGemini :: "anim_params \<Rightarrow> string \<Rightarrow> frames_result io" where
  "generateAnimationWithGemini ps key =
     catch_io
       (let totalFrames = length (frameDescriptions ps)
        in case inline_parts (characterImage ps) of
             [] \<Rightarrow> throw_io (Error ''Invalid character image format'')
           | img # others \<Rightarrow>
               bind_io (gemini_frames ps key img totalFrames [0 ..< totalFrames] [])
                 (frames_done ''gemini''))
       (frames_failure ''gemini'')"

definition generateAnimationFrames :: "anim_params \<Rightarrow> options \<Rightarrow> env \<Rightarrow> frames_result io" where
  "generateAnimationFrames ps opts ev =
     (if useOwnKey opts \<and> truthy (apiKey opts) then
        (if opt_provider opts = Some ''gemini''
         then generateAnimationWithGemini ps (the (apiKey opts))
         else generateAnimationWithReplicate ps (the (apiKey opts)) None ev)
      else if truthy (REPLICATE_API_TOKEN ev) then
        generateAnimationWithReplicate ps (the (REPLICATE_API_TOKEN ev)) (REPLICATE_MODEL_ID ev) ev
      else if truthy (GEMINI_API_KEY ev) \<and> GEMINI_API_KEY ev \<noteq> Some ''your_gemini_api_key_here'' then
        generateAnimationWithGemini ps (the (GEMINI_API_KEY ev))
      else
        return_io \<lparr> frames_success = False, frames = [],
          frames_error = Some ''No API key configured. Please add your own API key in settings.'',
          frames_provider = None \<rparr>)"

section \<open>Direct animation (generation.service)\<close>

record direct_params =
  da_prompt :: "string option"
  da_style :: "string option"
  da_width :: "nat option"
  da_height :: "nat option"
  da_quantity :: "int option"
  da_seed :: "nat option"
  da_input_image :: "string option"
  return_spritesheet :: "bool option"
  bypass_prompt_expansion :: "bool option"

text \<open>\<open>value || fallback\<close> on optional strings and numbers: the empty string and 0 are falsy.\<close>

definition or_string :: "string option \<Rightarrow> string \<Rightarrow> string" where
  "or_string v d = (if truthy v then the v else d)"

definition or_nat :: "nat option \<Rightarrow> nat \<Rightarrow> nat" where
  "or_nat v d = (case v of None \<Rightarrow> d | Some n \<Rightarrow> if n = 0 then d else n)"

definition or_int :: "int option \<Rightarrow> int \<Rightarrow> int" where
  "or_int v d = (case v of None \<Rightarrow> d | Some n \<Rightarrow> if n = 0 then d else n)"

text \<open>The context object \<open>generateDirectAnimation\<close> hands to the refinement stage.\<close>

definition direct_context :: "direct_params \<Rightarrow> prompt_context" where
  "direct_context ps =
     \<lparr> prompt = None, type = ''sprite'', style = or_string (da_style ps) ''pixel_art'',
       viewpoint = ''isometric'', colors = None, dimensions = None, aspectRatio = ''1:1'',
       spriteType = Some ''character'', sceneType = None \<rparr>"

definition direct_payload_of :: "direct_params \<Rightarrow> string option \<Rightarrow> direct_payload" where
  "direct_payload_of ps finalPrompt =
     \<lparr> payload_prompt = finalPrompt,
       payload_style = or_string (da_style ps) ''four_angle_walking'',
       payload_width = or_nat (da_width ps) 48,
       payload_height = or_nat (da_height ps) 48,
       payload_return_spritesheet = (case return_spritesheet ps of None \<Rightarrow> True | Some b \<Rightarrow> b),
       payload_bypass_prompt_expansion = (case bypass_prompt_expansion ps of None \<Rightarrow> False | Some b \<Rightarrow> b),
       payload_seed = (case da_seed ps of None \<Rightarrow> None | Some n \<Rightarrow> if n = 0 then None else Some n),
       payload_input_image = (if truthy (da_input_image ps) then da_input_image ps else None) \<rparr>"

text \<open>The loop \<open>for (let i = 0; i < quantity; i++)\<close>: one sheet per round.\<close>

fun direct_rounds :: "string \<Rightarrow> direct_payload \<Rightarrow> nat list \<Rightarrow> string list \<Rightarrow> string list io" where
  "direct_rounds token pl [] imgs = return_io imgs"
| "direct_rounds token pl (i # rest) imgs =
     bind_io (callReplicate token ''retro-diffusion/rd-animation'' (DirectInput pl)) (\<lambda>out.
     bind_io (fetch_all ''image/png'' (as_array out) imgs) (\<lambda>imgs'.
       direct_rounds token pl rest imgs'))"

definition generateDirectAnimation :: "direct_params \<Rightarrow> options \<Rightarrow> env \<Rightarrow> gen_result io" where
  "generateDirectAnimation ps opts ev =
     (let token = (if \<not> useOwnKey opts \<or> \<not> truthy (apiKey opts) then REPLICATE_API_TOKEN ev
                   else apiKey opts)
      in if \<not> truthy token then
           return_io \<lparr> success = False, images = [], error = Some ''No API key configured.'',
             provider = None \<rparr>
         else
           catch_io
             (bind_io
                (if bypass_prompt_expansion ps = Some True then return_io (da_prompt ps)
                 else bind_io (refinePromptWithIntelligence (da_prompt ps) (direct_context ps) (the token))
                        (\<lambda>refined. return_io (Some refined)))
                (\<lambda>finalPrompt.
                  let n = or_int (da_quantity ps) 1
                  in bind_io (direct_rounds (the token) (direct_payload_of ps finalPrompt) [0 ..< nat n] [])
                       (\<lambda>imgs. return_io \<lparr> success = True, images = imgs, error = None,
                                  provider = Some ''replicate'' \<rparr>)))
             (failure ''replicate''))"

section \<open>Spritesheet Generator (spritesheet.service)\<close>

record preset =
  preset_id :: string
  preset_name :: string
  description :: string
  preset_style :: string
  width :: nat
  height :: nat
  frameCount :: nat
  recommended :: bool

definition ANIMATION_PRESETS :: "preset list" where
  "ANIMATION_PRESETS =
     [\<lparr> preset_id = ''four_angle_walking'', preset_name = ''4-Direction Walking'',
        description = ''Consistent 4-direction, 4-frame walking animation for humanoid characters'',
        preset_style = ''four_angle_walking'', width = 48, height = 48, frameCount = 16,
        recommended = True \<rparr>,
      \<lparr> preset_id = ''walking_and_idle'', preset_name = ''Walking & Idle'',
        description = ''Consistent 4-direction walking and idle animations'',
        preset_style = ''walking_and_idle'', width = 48, height = 48, frameCount = 24,
        recommended = True \<rparr>,
      \<lparr> preset_id = ''small_sprites'', preset_name = ''Small Sprite Actions'',
        description = ''4-direction 32x32 sprites with various actions (walking, arm movement, looking, surprised, laying down)'',
        preset_style = ''small_sprites'', width = 32, height = 32, frameCount = 16,
        recommended = False \<rparr>,
      \<lparr> preset_id = ''vfx'', preset_name = ''Visual Effects'',
        description = ''Visual effects animations (24x24 to 96x96)'',
        preset_style = ''vfx'', width = 64, height = 64, frameCount = 8,
        recommended = False \<rparr>]"

definition getAnimationPresets :: "preset list" where
  "getAnimationPresets = ANIMATION_PRESETS"

definition getAnimationPreset :: "string \<Rightarrow> preset option" where
  "getAnimationPreset i = find (\<lambda>p. preset_id p = i) ANIMATION_PRESETS"

record sheet_params =
  animationPresetId :: string
  customWidth :: "nat option"
  customHeight :: "nat option"
  customPrompt :: "string option"
  characterImageUrl :: "string option"

record sheet_result =
  sheet_success :: bool
  spritesheetUrl :: "string option"
  sheet_frameCount :: nat
  frameWidth :: nat
  frameHeight :: nat
  layout :: string
  sheet_error :: "string option"

definition animation_request :: "string \<Rightarrow> sheet_input \<Rightarrow> request" where
  "animation_request apiToken input =
     \<lparr> verb = ''POST'',
       url = ''https://api.replicate.com/v1/models/retro-diffusion/rd-animation/predictions'',
       authorization = Some (''Token '' @ apiToken),
       payload = PredictionBody None (SheetInput input) \<rparr>"

definition callReplicateAnimation :: "string \<Rightarrow> sheet_input \<Rightarrow> js_output io" where
  "callReplicateAnimation apiToken input =
     bind_io (await_fetch (animation_request apiToken input)) (\<lambda>startResponse.
       if \<not> ok startResponse then
         throw_io (Error (''Replicate API error: '' @ show_nat (http_status startResponse)
                          @ '' - '' @ error_json_text startResponse))
       else
         bind_io (lift_io (json_prediction startResponse)) (\<lambda>started.
         bind_io (poll_loop (poll_request apiToken) started) (\<lambda>prediction.
           if status prediction = ''failed''
           then throw_io (job_error prediction ''Animation generation failed'')
           else return_io (poutput prediction))))"

text \<open>
  \<open>generateSpritesheet\<close>. The seed, \<open>Math.floor(Math.random() * 1000000)\<close> in the code, is an
  argument here.
\<close>

definition generateSpritesheet :: "sheet_params \<Rightarrow> string \<Rightarrow> nat \<Rightarrow> sheet_result io" where
  "generateSpritesheet ps apiToken seed =
     catch_io
       (case find (\<lambda>p. preset_id p = animationPresetId ps) ANIMATION_PRESETS of
          None \<Rightarrow> throw_io (Error (''Invalid animation preset: '' @ animationPresetId ps))
        | Some pre \<Rightarrow>
            (let w = or_nat (customWidth ps) (width pre);
                 h = or_nat (customHeight ps) (height pre);
                 txt = (if truthy (customPrompt ps) then the (customPrompt ps)
                        else ''pixel art character sprite, '' @ toLowerCase (preset_name pre));
                 input = \<lparr> sheet_prompt = txt, sheet_style = preset_style pre, sheet_width = w,
                           sheet_height = h, sheet_input_image = characterImageUrl ps,
                           sheet_seed = seed \<rparr>
             in bind_io (callReplicateAnimation apiToken input) (\<lambda>out.
                  case out of
                    NoOutput \<Rightarrow> throw_io (Error ''Unexpected output format from rd-animation'')
                  | _ \<Rightarrow>
                      return_io
                        \<lparr> sheet_success = True,
                          spritesheetUrl =
                            (case out of
                               OutArr xs \<Rightarrow> (case xs of [] \<Rightarrow> None | x # rest \<Rightarrow> Some x)
                             | OutStr x \<Rightarrow> Some x
                             | NoOutput \<Rightarrow> None),
                          sheet_frameCount = frameCount pre, frameWidth = w, frameHeight = h,
                          layout = (if frameCount pre > 8 then ''grid'' else ''horizontal''),
                          sheet_error = None \<rparr>)))
       (\<lambda>e. return_io
              \<lparr> sheet_success = False, spritesheetUrl = None, sheet_frameCount = 0,
                frameWidth = 0, frameHeight = 0, layout = ''horizontal'',
                sheet_error = Some (message e) \<rparr>)"

section \<open>The generation routes\<close>

text \<open>
  The fields of a request body the sprite, scene and direct-animation routes read; a field
  the body leaves out takes the default written in the route's destructuring. The functions
  below are the calls the routes make once a request has passed authentication, the credit
  check and the prompt check.
\<close>

record generate_body =
  body_prompt :: "string option"
  body_style :: "string option"
  body_aspectRatio :: "string option"
  body_viewpoint :: "string option"
  body_colors :: "string list option"
  body_dimensions :: "string option"
  body_quantity :: "int option"
  body_referenceImage :: "string option"
  body_poseImage :: "string option"
  body_spriteType :: "string option"
  body_sceneType :: "string option"
  body_width :: "nat option"
  body_height :: "nat option"
  body_return_spritesheet :: "bool option"
  body_bypass_prompt_expansion :: "bool option"
  body_apiKey :: "string option"
  body_provider :: "string option"

definition dflt :: "'a option \<Rightarrow> 'a \<Rightarrow> 'a" where
  "dflt v d = (case v of None \<Rightarrow> d | Some x \<Rightarrow> x)"

definition route_options :: "generate_body \<Rightarrow> options" where
  "route_options b =
     \<lparr> apiKey = body_apiKey b,
       opt_provider = Some (or_string (body_provider b) ''replicate''),
       useOwnKey = truthy (body_apiKey b) \<rparr>"

definition sprite_params :: "generate_body \<Rightarrow> params" where
  "sprite_params b =
     \<lparr> prompt = body_prompt b, type = ''sprite'', style = dflt (body_style b) ''pixel_art'',
       viewpoint = dflt (body_viewpoint b) ''front'', colors = Some (dflt (body_colors b) []),
       dimensions = Some (dflt (body_dimensions b) ''64x64''),
       aspectRatio = dflt (body_aspectRatio b) ''1:1'',
       spriteType = Some (dflt (body_spriteType b) ''character''), sceneType = None,
       quantity = min (dflt (body_quantity b) 2) 4,
       referenceImage = body_referenceImage b, poseImage = body_poseImage b \<rparr>"

definition scene_params :: "generate_body \<Rightarrow> params" where
  "scene_params b =
     \<lparr> prompt = body_prompt b, type = ''scene'', style = dflt (body_style b) ''pixel_art'',
       viewpoint = dflt (body_viewpoint b) ''side'', colors = Some (dflt (body_colors b) []),
       dimensions = None, aspectRatio = dflt (body_aspectRatio b) ''16:9'',
       spriteType = None, sceneType = Some (dflt (body_sceneType b) ''environment''),
       quantity = min (dflt (body_quantity b) 2) 4,
       referenceImage = body_referenceImage b, poseImage = None \<rparr>"

definition direct_animation_params :: "generate_body \<Rightarrow> direct_params" where
  "direct_animation_params b =
     \<lparr> da_prompt = body_prompt b, da_style = Some (dflt (body_style b) ''four_angle_walking''),
       da_width = Some (dflt (body_width b) 48), da_height = Some (dflt (body_height b) 48),
       da_quantity = Some (min (dflt (body_quantity b) 1) 4), da_seed = None,
       da_input_image = None,
       return_spritesheet = Some (dflt (body_return_spritesheet b) True),
       bypass_prompt_expansion = Some (dflt (body_bypass_prompt_expansion b) False) \<rparr>"

definition sprite_route :: "generate_body \<Rightarrow> env \<Rightarrow> gen_result io" where
  "sprite_route b ev = generateImages (sprite_params b) (route_options b) ev"

definition scene_route :: "generate_body \<Rightarrow> env \<Rightarrow> gen_result io" where
  "scene_route b ev = generateImages (scene_params b) (route_options b) ev"

definition direct_animation_route :: "generate_body \<Rightarrow> env \<Rightarrow> gen_result io" where
  "direct_animation_route b ev =
     generateDirectAnimation (direct_animation_params b) (route_options b) ev"

section \<open>Asset Service\<close>

text \<open>
  The assets collection: the stored document of each id. \<open>updated_at\<close> is the time of the
  last write, which the callers below pass as \<open>now\<close>. The project thumbnail that
  \<open>update\<close> may set afterwards lives in another collection, and its errors are swallowed.
\<close>

record asset =
  user_id :: string
  asset_name :: "string option"
  project_id :: "string option"
  metadata :: "(string \<times> string) list"
  asset_status :: string
  blob_url :: "string option"
  updated_at :: nat

type_synonym assets = "string \<Rightarrow> asset option"

definition findById :: "assets \<Rightarrow> string \<Rightarrow> string option \<Rightarrow> (string \<times> asset) option" where
  "findById store i userId =
     (case store i of
        None \<Rightarrow> None
      | Some d \<Rightarrow> if truthy userId \<and> user_id d \<noteq> the userId then None else Some (i, d))"

record asset_updates =
  upd_name :: "string option"
  upd_project_id :: "string option"
  upd_metadata :: "(string \<times> string) list option"

definition apply_updates :: "asset_updates \<Rightarrow> nat \<Rightarrow> asset \<Rightarrow> asset" where
  "apply_updates u now d =
     d \<lparr> updated_at := now,
         asset_name := (case upd_name u of None \<Rightarrow> asset_name d | Some n \<Rightarrow> Some n),
         project_id := (case upd_project_id u of None \<Rightarrow> project_id d | Some p \<Rightarrow> Some p),
         metadata := (case upd_metadata u of
                        None \<Rightarrow> metadata d
                      | Some m \<Rightarrow> m @ filter (\<lambda>kv. fst kv \<notin> fst ` set m) (metadata d)) \<rparr>"

definition update_asset ::
  "assets \<Rightarrow> string \<Rightarrow> string option \<Rightarrow> asset_updates \<Rightarrow> nat
     \<Rightarrow> (js_error + (string \<times> asset) option) \<times> assets" where
  "update_asset store i userId u now =
     (case findById store i userId of
        None \<Rightarrow> (Inl (Error ''Asset not found''), store)
      | Some (j, d) \<Rightarrow>
          (let store' = store (i := Some (apply_updates u now d))
           in (Inr (findById store' i userId), store')))"

definition delete_asset ::
  "assets \<Rightarrow> string \<Rightarrow> string option \<Rightarrow> nat \<Rightarrow> (js_error + unit) \<times> assets" where
  "delete_asset store i userId now =
     (case findById store i userId of
        None \<Rightarrow> (Inl (Error ''Asset not found''), store)
      | Some (j, d) \<Rightarrow>
          (Inr (), store (i := Some (d \<lparr> asset_status := ''deleted'', updated_at := now \<rparr>))))"

text \<open>\<open>hardDelete\<close>, on the collection; the stored file it also removes is not modelled.\<close>

definition hardDelete :: "assets \<Rightarrow> string \<Rightarrow> string option \<Rightarrow> (js_error + unit) \<times> assets" where
  "hardDelete store i userId =
     (case findById store i userId of
        None \<Rightarrow> (Inl (Error ''Asset not found''), store)
      | Some (j, d) \<Rightarrow> (Inr (), store (i := None)))"

section \<open>The requests a call makes\<close>

text \<open>
  \<open>sent w w'\<close> are the requests made between two worlds. A text-to-image request carries
  \<open>num_images\<close>; a Gemini call asks for one image, a creation request to the rd-animation
  model for one sheet. \<open>emits m A B n\<close>: whenever \<open>m\<close> settles, it has only added requests
  to the log, each of them satisfies \<open>A\<close>, and at most \<open>n\<close> of them satisfy \<open>B\<close>.
\<close>

definition sent :: "world \<Rightarrow> world \<Rightarrow> request list" where
  "sent w w' = drop (length (log w)) (log w')"

definition num_images :: "request \<Rightarrow> int option" where
  "num_images rq =
     (case payload rq of
        PredictionBody v (RdPlusInput p n i) \<Rightarrow> Some n
      | _ \<Rightarrow> None)"

definition is_gemini_call :: "request \<Rightarrow> bool" where
  "is_gemini_call rq = (case payload rq of GeminiBody t ps \<Rightarrow> True | _ \<Rightarrow> False)"

definition is_sheet_job :: "request \<Rightarrow> bool" where
  "is_sheet_job rq =
     (verb rq = ''POST'' \<and>
      url rq = ''https://api.replicate.com/v1/models/retro-diffusion/rd-animation/predictions'')"

definition is_item_call :: "request \<Rightarrow> bool" where
  "is_item_call rq = (is_gemini_call rq \<or> is_sheet_job rq)"

definition num_ok :: "int \<Rightarrow> request \<Rightarrow> bool" where
  "num_ok q rq = (\<forall>n. num_images rq = Some n \<longrightarrow> n = q)"

definition emits :: "'a io \<Rightarrow> (request \<Rightarrow> bool) \<Rightarrow> (request \<Rightarrow> bool) \<Rightarrow> nat \<Rightarrow> bool" where
  "emits m A B n =
     (\<forall>w r w'. m w = Some (r, w') \<longrightarrow>
        (\<exists>new. log w' = log w @ new \<and> list_all A new \<and> length (filter B new) \<le> n))"

text \<open>
  A result as the generation operations should return it, and \<open>yields m P\<close>: every value
  \<open>m\<close> returns satisfies \<open>P\<close>.
\<close>

definition good_result :: "gen_result \<Rightarrow> bool" where
  "good_result res =
     ((success res \<longrightarrow> images res \<noteq> []) \<and>
      (\<not> success res \<longrightarrow> images res = [] \<and> error res \<noteq> None))"

definition yields :: "'a io \<Rightarrow> ('a \<Rightarrow> bool) \<Rightarrow> bool" where
  "yields m P = (\<forall>w r w'. m w = Some (r, w') \<longrightarrow> (\<forall>x. r = Inr x \<longrightarrow> P x))"

section \<open>Sample answers and worlds\<close>

definition job :: "string \<Rightarrow> string \<Rightarrow> js_output \<Rightarrow> response" where
  "job i st out =
     \<lparr> ok = True, http_status = 200,
       json = PredictionJson \<lparr> pid = i, status = st, perror = None, poutput = out, urls_get = None \<rparr>,
       json_text = [], content_type = None, base64 = [] \<rparr>"

definition http_failure :: "nat \<Rightarrow> response" where
  "http_failure n =
     \<lparr> ok = False, http_status = n, json = NoJson, json_text = [], content_type = None,
       base64 = [] \<rparr>"

definition picture :: response where
  "picture =
     \<lparr> ok = True, http_status = 200, json = NoJson, json_text = [],
       content_type = Some ''image/png'', base64 = ''iVBORw0KGgo='' \<rparr>"

definition world_of :: "fetch_result list \<Rightarrow> world" where
  "world_of rs = \<lparr> script = rs, log = [] \<rparr>"

definition starting :: prediction where
  "starting = \<lparr> pid = ''j1'', status = ''starting'', perror = None, poutput = NoOutput, urls_get = None \<rparr>"

definition processing :: prediction where
  "processing = starting \<lparr> status := ''processing'' \<rparr>"

definition succeeded :: prediction where
  "succeeded = starting \<lparr> status := ''succeeded'', poutput := OutStr ''https://out/1.png'' \<rparr>"

definition answer :: "prediction \<Rightarrow> fetch_result" where
  "answer p =
     Responds \<lparr> ok = True, http_status = 200, json = PredictionJson p, json_text = [],
       content_type = None, base64 = [] \<rparr>"

definition knight :: generate_body where
  "knight =
     \<lparr> body_prompt = Some ''a knight'', body_style = None, body_aspectRatio = None,
       body_viewpoint = None, body_colors = None, body_dimensions = None, body_quantity = None,
       body_referenceImage = None, body_poseImage = None, body_spriteType = None,
       body_sceneType = None, body_width = None, body_height = None,
       body_return_spritesheet = None, body_bypass_prompt_expansion = None,
       body_apiKey = None, body_provider = None \<rparr>"

definition platform :: env where
  "platform =
     \<lparr> REPLICATE_API_TOKEN = Some ''r8_platform'', REPLICATE_MODEL_ID = None,
       GEMINI_API_KEY = None \<rparr>"

definition no_keys :: env where
  "no_keys = \<lparr> REPLICATE_API_TOKEN = None, REPLICATE_MODEL_ID = None, GEMINI_API_KEY = None \<rparr>"

definition own_key :: "string \<Rightarrow> options" where
  "own_key prov = \<lparr> apiKey = Some ''sk-own'', opt_provider = Some prov, useOwnKey = True \<rparr>"

definition no_own_key :: options where
  "no_own_key = \<lparr> apiKey = None, opt_provider = Some ''replicate'', useOwnKey = False \<rparr>"

definition sheet :: sheet_params where
  "sheet =
     \<lparr> animationPresetId = ''four_angle_walking'', customWidth = None, customHeight = None,
       customPrompt = None, characterImageUrl = Some ''https://img/knight.png'' \<rparr>"

definition asset_of :: "string \<Rightarrow> asset" where
  "asset_of u =
     \<lparr> user_id = u, asset_name = Some ''knight_1'', project_id = None, metadata = [],
       asset_status = ''active'', blob_url = Some ''https://storage/knight_1.png'',
       updated_at = 0 \<rparr>"

definition one_asset :: assets where
  "one_asset = (\<lambda>i. if i = ''a1'' then Some (asset_of ''u1'') else None)"

definition one_frame :: anim_params where
  "one_frame =
     \<lparr> characterImage = Some ''data:image/png;base64,AAAA'', viewType = ''side'',
       direction = ''right'', animationType = Some ''walk'', frameDescriptions = [''idle''] \<rparr>"

text \<open>A word of the full-body clause that no other text of the builder contains.\<close>

definition full_body_word :: string where
  "full_body_word = ''FULL-BODY''"

definition clause_in_prompt :: generate_body where
  "clause_in_prompt = knight \<lparr> body_prompt := Some (''bust '' @ full_body_clause) \<rparr>"

definition refined_job :: response where
  "refined_job = job ''r1'' ''succeeded'' (OutStr ''a knight, pixel art'')"

definition ask :: "int \<Rightarrow> generate_body" where
  "ask q = knight \<lparr> body_quantity := Some q \<rparr>"

definition sprite_world :: world where
  "sprite_world =
     world_of [Responds (http_failure 422), Responds refined_job, Responds (http_failure 422),
               Responds (job ''j1'' ''succeeded'' (OutArr [''https://out/1.png''])),
               Responds picture]"

definition sprite_requests :: "int \<Rightarrow> request list" where
  "sprite_requests q =
     [legacy_request ''r8_platform'' ''google/gemini-2.5-flash''
        (RefineInput ''a knight'' (prompt_context.truncate (sprite_params (ask q)))),
      create_request ''r8_platform'' ''google/gemini-2.5-flash''
        (RefineInput ''a knight'' (prompt_context.truncate (sprite_params (ask q)))),
      legacy_request ''r8_platform'' ''retro-diffusion/rd-plus''
        (RdPlusInput ''a knight, pixel art'' (min q 4) None),
      create_request ''r8_platform'' ''retro-diffusion/rd-plus''
        (RdPlusInput ''a knight, pixel art'' (min q 4) None)]"

definition no_output_world :: world where
  "no_output_world =
     world_of [Responds (http_failure 422), Responds refined_job, Responds (http_failure 422),
               Responds (job ''j1'' ''succeeded'' (OutArr []))]"

definition sprite_world_after :: world where
  "sprite_world_after =
     \<lparr> script = [], log = sprite_requests 10 @ [image_request ''https://out/1.png''] \<rparr>"

definition no_output_world_after :: world where
  "no_output_world_after = \<lparr> script = [], log = sprite_requests 0 \<rparr>"

section \<open>The polling loop\<close>

lemma poll_loop_terminal: "terminal p \<Longrightarrow> poll_loop mk p w = Some (Inr p, w)"
  by (simp add: poll_loop.simps)

lemma poll_loop_step:
  "\<not> terminal p \<Longrightarrow> script w = Responds r # rest \<Longrightarrow> json_prediction r = Inr q \<Longrightarrow>
   poll_loop mk p w = poll_loop mk q \<lparr> script = rest, log = log w @ [mk p] \<rparr>"
  by (subst poll_loop.simps) (simp add: fetch_def)

lemma poll_loop_run:
  "\<not> terminal p \<Longrightarrow> script w = map Responds rs @ Responds r # rest \<Longrightarrow>
   map json_prediction rs = map Inr qs \<Longrightarrow> (\<forall>q \<in> set qs. \<not> terminal q) \<Longrightarrow>
   json_prediction r = Inr q \<Longrightarrow> terminal q \<Longrightarrow>
   poll_loop mk p w = Some (Inr q, \<lparr> script = rest, log = log w @ map mk (p # qs) \<rparr>)"
proof (induction rs arbitrary: p w qs)
  case Nil
  then show ?case
    by (simp add: poll_loop_step poll_loop_terminal)
next
  case (Cons a rs)
  from Cons.prems(3) obtain q' qs' where qs: "qs = q' # qs'" and a: "json_prediction a = Inr q'"
    and rest: "map json_prediction rs = map Inr qs'"
    by (cases qs) auto
  let ?w = "\<lparr> script = map Responds rs @ Responds r # rest, log = log w @ [mk p] \<rparr>"
  have step: "poll_loop mk p w = poll_loop mk q' ?w"
    using Cons.prems(1,2) a by (simp add: poll_loop_step)
  have "poll_loop mk q' ?w = Some (Inr q, \<lparr> script = rest, log = log ?w @ map mk (q' # qs') \<rparr>)"
    using Cons.IH[of q' ?w qs'] Cons.prems rest qs by simp
  with step qs show ?case by simp
qed

lemma poll_loop_pending:
  "\<not> terminal p \<Longrightarrow> script w = map Responds rs \<Longrightarrow>
   map json_prediction rs = map Inr qs \<Longrightarrow> (\<forall>q \<in> set qs. \<not> terminal q) \<Longrightarrow>
   poll_loop mk p w = None"
proof (induction rs arbitrary: p w qs)
  case Nil
  then show ?case by (subst poll_loop.simps) (simp add: fetch_def)
next
  case (Cons a rs)
  from Cons.prems(3) obtain q' qs' where qs: "qs = q' # qs'" and a: "json_prediction a = Inr q'"
    and rest: "map json_prediction rs = map Inr qs'"
    by (cases qs) auto
  let ?w = "\<lparr> script = map Responds rs, log = log w @ [mk p] \<rparr>"
  have step: "poll_loop mk p w = poll_loop mk q' ?w"
    using Cons.prems(1,2) a by (simp add: poll_loop_step)
  show ?case
    using Cons.IH[of q' ?w qs'] Cons.prems rest qs step by simp
qed

text \<open>
  C8. The polling loop makes no request when the prediction it starts from is already
  terminal. Otherwise it makes one request per prediction it has seen, stops at the first
  answer whose status is \<open>succeeded\<close> or \<open>failed\<close>, returns that answer and leaves every later
  answer of the provider unread; as long as the answers are not terminal it keeps polling,
  so that it has not returned when the answers run out.
\<close>

theorem poll_loop_stops_at_first_terminal:
  "(terminal p \<longrightarrow> poll_loop mk p w = Some (Inr p, w)) \<and>
   (\<not> terminal p \<and> script w = map Responds rs @ Responds r # rest \<and>
      map json_prediction rs = map Inr qs \<and> (\<forall>x \<in> set qs. \<not> terminal x) \<and>
      json_prediction r = Inr q \<and> terminal q
    \<longrightarrow> poll_loop mk p w = Some (Inr q, \<lparr> script = rest, log = log w @ map mk (p # qs) \<rparr>)) \<and>
   (\<not> terminal p \<and> script w = map Responds rs \<and>
      map json_prediction rs = map Inr qs \<and> (\<forall>x \<in> set qs. \<not> terminal x)
    \<longrightarrow> poll_loop mk p w = None)"
  using poll_loop_terminal poll_loop_run poll_loop_pending by blast

theorem poll_loop_stops_at_first_terminal_witness:
  "poll_loop (poll_request ''tok'') succeeded (world_of [answer processing])
     = Some (Inr succeeded, world_of [answer processing]) \<and>
   poll_loop (poll_request ''tok'') starting
       (world_of [answer processing, answer succeeded, answer processing])
     = Some (Inr succeeded,
         \<lparr> script = [answer processing],
           log = [poll_request ''tok'' starting, poll_request ''tok'' processing] \<rparr>) \<and>
   poll_loop (poll_request ''tok'') starting (world_of [answer processing, answer processing]) = None"
proof -
  let ?resp = "\<lambda>p. \<lparr> ok = True, http_status = 200, json = PredictionJson p, json_text = [],
       content_type = None, base64 = [] \<rparr>"
  have 1: "poll_loop (poll_request ''tok'') succeeded (world_of [answer processing])
     = Some (Inr succeeded, world_of [answer processing])"
    using poll_loop_stops_at_first_terminal[of succeeded "poll_request ''tok''" "world_of [answer processing]"]
    by (simp add: terminal_def succeeded_def)
  have 2: "poll_loop (poll_request ''tok'') starting
       (world_of [answer processing, answer succeeded, answer processing])
     = Some (Inr succeeded,
         \<lparr> script = [answer processing],
           log = [poll_request ''tok'' starting, poll_request ''tok'' processing] \<rparr>)"
    using poll_loop_stops_at_first_terminal[of starting "poll_request ''tok''"
        "world_of [answer processing, answer succeeded, answer processing]"
        "[?resp processing]" "?resp succeeded" "[answer processing]" "[processing]" succeeded]
    by (simp add: terminal_def succeeded_def starting_def processing_def world_of_def answer_def
        json_prediction_def)
  have 3: "poll_loop (poll_request ''tok'') starting (world_of [answer processing, answer processing]) = None"
    using poll_loop_stops_at_first_terminal[of starting "poll_request ''tok''"
        "world_of [answer processing, answer processing]"
        "[?resp processing, ?resp processing]" _ _ "[processing, processing]"]
    by (simp add: terminal_def starting_def processing_def world_of_def answer_def
        json_prediction_def)
  from 1 2 3 show ?thesis by blast
qed

lemmas io_defs = bind_io_def catch_io_def return_io_def throw_io_def lift_io_def await_fetch_def
  fetch_def

section \<open>Endpoint selection of the polling gateway\<close>

text \<open>
  C3. A model identifier of the form \<open>namespace/name:version\<close> contains a slash, so
  \<open>callReplicate\<close> takes its first branch: the creation request it awaits goes to the
  model-specific endpoint, with the whole identifier (version included) in the path and no
  version in the body. The generic endpoint receives only the unread first request. The claim
  asks for the generic endpoint with the version in the body.
\<close>

theorem callReplicate_versioned_identifier:
  "callReplicate ''tok'' ''owner/name:abc123'' input
     (world_of [Responds (job ''j0'' ''starting'' NoOutput),
                Responds (job ''j1'' ''succeeded'' (OutStr ''https://out/1.png''))])
   = Some (Inr (OutStr ''https://out/1.png''),
       \<lparr> script = [],
         log = [\<lparr> verb = ''POST'', url = ''https://api.replicate.com/v1/predictions'',
                   authorization = Some ''Token tok'',
                   payload = PredictionBody (Some ''abc123'') input \<rparr>,
                \<lparr> verb = ''POST'',
                   url = ''https://api.replicate.com/v1/models/owner/name:abc123/predictions'',
                   authorization = Some ''Token tok'',
                   payload = PredictionBody None input \<rparr>] \<rparr>)"
  by (simp add: callReplicate_def io_defs legacy_request_def create_request_def job_def
      json_prediction_def poll_loop.simps terminal_def world_of_def split_second_def)

section \<open>Provider selection\<close>

text \<open>
  C4. \<open>generateImages\<close> selects the provider in this order: with an own credential (the
  own-key flag and a non-empty key) and provider \<open>gemini\<close> it is the Gemini path with that
  key; with any other own credential the polling provider with that key; else the polling
  provider with the platform token when one is set; else the Gemini path with the platform
  key when it is set and is not the placeholder; else it returns the "No API key configured"
  failure in the world it was called in, so no request has been made.
\<close>

theorem generateImages_selection:
  "(useOwnKey opts \<and> apiKey opts = Some k \<and> k \<noteq> [] \<and> opt_provider opts = Some ''gemini''
      \<longrightarrow> generateImages ps opts ev = generateWithGemini ps k) \<and>
   (useOwnKey opts \<and> apiKey opts = Some k \<and> k \<noteq> [] \<and> opt_provider opts \<noteq> Some ''gemini''
      \<longrightarrow> generateImages ps opts ev = generateWithReplicate ps k None) \<and>
   (\<not> (useOwnKey opts \<and> truthy (apiKey opts)) \<and> REPLICATE_API_TOKEN ev = Some t \<and> t \<noteq> []
      \<longrightarrow> generateImages ps opts ev = generateWithReplicate ps t (REPLICATE_MODEL_ID ev)) \<and>
   (\<not> (useOwnKey opts \<and> truthy (apiKey opts)) \<and> \<not> truthy (REPLICATE_API_TOKEN ev) \<and>
      GEMINI_API_KEY ev = Some g \<and> g \<noteq> [] \<and> g \<noteq> ''your_gemini_api_key_here''
      \<longrightarrow> generateImages ps opts ev = generateWithGemini ps g) \<and>
   (\<not> (useOwnKey opts \<and> truthy (apiKey opts)) \<and> \<not> truthy (REPLICATE_API_TOKEN ev) \<and>
      (\<not> truthy (GEMINI_API_KEY ev) \<or> GEMINI_API_KEY ev = Some ''your_gemini_api_key_here'')
      \<longrightarrow> generateImages ps opts ev w
            = Some (Inr \<lparr> success = False, images = [],
                      error = Some ''No API key configured. Please add your own API key in settings or contact support.'',
                      provider = None \<rparr>, w))"
  by (auto simp: generateImages_def return_io_def)

theorem generateImages_selection_witness:
  "generateImages (sprite_params knight) (own_key ''gemini'') platform
     = generateWithGemini (sprite_params knight) ''sk-own'' \<and>
   generateImages (sprite_params knight) (own_key ''replicate'') platform
     = generateWithReplicate (sprite_params knight) ''sk-own'' None \<and>
   generateImages (sprite_params knight) no_own_key platform
     = generateWithReplicate (sprite_params knight) ''r8_platform'' None \<and>
   generateImages (sprite_params knight) no_own_key (no_keys \<lparr> GEMINI_API_KEY := Some ''AIza-platform'' \<rparr>)
     = generateWithGemini (sprite_params knight) ''AIza-platform'' \<and>
   generateImages (sprite_params knight) no_own_key
       (no_keys \<lparr> GEMINI_API_KEY := Some ''your_gemini_api_key_here'' \<rparr>) (world_of [Responds picture])
     = Some (Inr \<lparr> success = False, images = [],
               error = Some ''No API key configured. Please add your own API key in settings or contact support.'',
               provider = None \<rparr>, world_of [Responds picture])"
  using generateImages_selection[of "own_key ''gemini''" "''sk-own''" "sprite_params knight" platform]
    generateImages_selection[of "own_key ''replicate''" "''sk-own''" "sprite_params knight" platform]
    generateImages_selection[of no_own_key _ "sprite_params knight" platform "''r8_platform''"]
    generateImages_selection[of no_own_key _ "sprite_params knight"
      "no_keys \<lparr> GEMINI_API_KEY := Some ''AIza-platform'' \<rparr>" _ "''AIza-platform''"]
    generateImages_selection[of no_own_key _ "sprite_params knight"
      "no_keys \<lparr> GEMINI_API_KEY := Some ''your_gemini_api_key_here'' \<rparr>" _ _ "world_of [Responds picture]"]
  by (simp add: own_key_def no_own_key_def platform_def no_keys_def)

section \<open>Refinement failure\<close>

text \<open>
  C5. On the direct-animation route a failed refinement call is not absorbed. The context
  object built there has no prompt, so the fallback \<open>buildPrompt(context)\<close> throws inside the
  \<open>catch\<close> block, and the route's generation call ends with \<open>success: false\<close> and that
  error, after the two requests of the refinement call and no other.
\<close>

theorem refinement_failure_surfaces:
  "direct_animation_route knight platform
     (world_of [Responds (http_failure 422), Responds (http_failure 500)])
   = Some (Inr \<lparr> success = False, images = [],
                 error = Some ''Cannot read properties of undefined (reading 'toLowerCase')'',
                 provider = Some ''replicate'' \<rparr>,
           \<lparr> script = [],
             log = [legacy_request ''r8_platform'' ''google/gemini-2.5-flash''
                      (RefineInput ''a knight'' (direct_context (direct_animation_params knight))),
                    create_request ''r8_platform'' ''google/gemini-2.5-flash''
                      (RefineInput ''a knight'' (direct_context (direct_animation_params knight)))] \<rparr>)"
  by (simp add: direct_animation_route_def generateDirectAnimation_def route_options_def
      direct_animation_params_def knight_def platform_def dflt_def or_string_def
      refinePromptWithIntelligence_def wantsPartialCharacter_def toLowerCase_def toLowerChar_def
      partial_markers_def includes_str_def sublist_code callReplicate_def io_defs
      http_failure_def world_of_def buildPrompt_def type_context_def direct_context_def
      failure_def prompt_context.truncate_def)

section \<open>Results of the generation operations\<close>

text \<open>
  C2. Two results with \<open>success: true\<close> and nothing generated: the direct-animation route
  with a requested quantity of -1 (the loop runs no round, and no request is made), and
  \<open>generateAnimationFrames\<close> when the job of a frame, polled once, succeeds without an
  output.
\<close>

theorem success_with_nothing_generated:
  "direct_animation_route
       (knight \<lparr> body_quantity := Some (- 1), body_bypass_prompt_expansion := Some True \<rparr>)
       platform w
     = Some (Inr \<lparr> success = True, images = [], error = None, provider = Some ''replicate'' \<rparr>, w) \<and>
   generateAnimationFrames one_frame
       \<lparr> apiKey = None, opt_provider = Some ''replicate'', useOwnKey = False \<rparr> platform
       (world_of [Responds (job ''j1'' ''starting'' NoOutput),
                  Responds (job ''j1'' ''succeeded'' NoOutput)])
     = Some (Inr \<lparr> frames_success = True, frames = [], frames_error = None,
                   frames_provider = Some ''replicate'' \<rparr>,
             \<lparr> script = [],
               log = [frame_create_request ''r8_platform'' None
                        (buildAnimationFramePrompt one_frame 0 1) (characterImage one_frame),
                      frame_poll_request ''r8_platform''
                        \<lparr> pid = ''j1'', status = ''starting'', perror = None,
                          poutput = NoOutput, urls_get = None \<rparr>] \<rparr>)"
  by (simp add: direct_animation_route_def generateDirectAnimation_def route_options_def
      direct_animation_params_def knight_def platform_def dflt_def or_string_def or_int_def
      io_defs generateAnimationFrames_def generateAnimationWithReplicate_def one_frame_def
      job_def world_of_def json_prediction_def poll_loop.simps terminal_def frame_image_def
      frames_done_def)

section \<open>Target dimensions in the built prompt\<close>

text \<open>
  C7. For the aspect ratio \<open>constructor\<close>, a string outside the table, the lookup finds the
  property inherited from \<open>Object.prototype\<close>; the built prompt says
  \<open>undefinedxundefined\<close> and does not contain 1024x1024.
\<close>

lemma show_nat_1024: "show_nat 1024 = ''1024''"
  by code_simp

theorem inherited_ratio_embeds_undefined:
  "\<exists>built. buildPrompt (sprite_params (knight \<lparr> body_aspectRatio := Some ''constructor'' \<rparr>)) = Inr built
     \<and> includes_str built ''The image should be undefinedxundefined pixels (constructor aspect ratio). ''
     \<and> \<not> includes_str built ''1024x1024''"
  by (simp add: buildPrompt_def type_context_def sprite_params_def knight_def dflt_def
      wantsPartialCharacter_def toLowerCase_def toLowerChar_def partial_markers_def
      includes_str_def sublist_code style_prefix_def sprite_context_def full_body_clause_def
      viewpoint_text_def viewpointDescriptions_def aspect_text_def getImageDimensions_def
      ratioMap_def object_prototype_keys_def colors_text_def dimensions_text_def
      prompt_text_def quality_suffix_def)

section \<open>Animation presets\<close>

text \<open>
  C9. Looking up \<open>four_angle_walking\<close> gives a preset with 16 frames of 48 by 48; looking up
  the id of any catalog entry gives that entry; and for an id that is not in the catalog the
  lookup finds nothing and \<open>generateSpritesheet\<close> returns the "Invalid animation preset"
  failure in the world it was called in, so no request has been made.
\<close>

theorem preset_lookup:
  "(\<exists>p. getAnimationPreset ''four_angle_walking'' = Some p \<and> frameCount p = 16 \<and>
         width p = 48 \<and> height p = 48) \<and>
   (\<forall>p \<in> set ANIMATION_PRESETS. getAnimationPreset (preset_id p) = Some p) \<and>
   (animationPresetId ps \<notin> preset_id ` set ANIMATION_PRESETS \<longrightarrow>
      getAnimationPreset (animationPresetId ps) = None \<and>
      generateSpritesheet ps apiToken seed w
        = Some (Inr \<lparr> sheet_success = False, spritesheetUrl = None, sheet_frameCount = 0,
                      frameWidth = 0, frameHeight = 0, layout = ''horizontal'',
                      sheet_error = Some (''Invalid animation preset: '' @ animationPresetId ps) \<rparr>,
                w))"
proof (intro conjI impI)
  show "\<exists>p. getAnimationPreset ''four_angle_walking'' = Some p \<and> frameCount p = 16 \<and>
         width p = 48 \<and> height p = 48"
    by (simp add: getAnimationPreset_def ANIMATION_PRESETS_def)
  show "\<forall>p \<in> set ANIMATION_PRESETS. getAnimationPreset (preset_id p) = Some p"
    by (simp add: getAnimationPreset_def ANIMATION_PRESETS_def)
next
  assume unknown: "animationPresetId ps \<notin> preset_id ` set ANIMATION_PRESETS"
  then have none: "find (\<lambda>p. preset_id p = animationPresetId ps) ANIMATION_PRESETS = None"
    by (force simp: find_None_iff image_iff)
  then show "getAnimationPreset (animationPresetId ps) = None"
    by (simp add: getAnimationPreset_def)
  from none show "generateSpritesheet ps apiToken seed w
        = Some (Inr \<lparr> sheet_success = False, spritesheetUrl = None, sheet_frameCount = 0,
                      frameWidth = 0, frameHeight = 0, layout = ''horizontal'',
                      sheet_error = Some (''Invalid animation preset: '' @ animationPresetId ps) \<rparr>,
                w)"
    by (simp add: generateSpritesheet_def catch_io_def throw_io_def return_io_def)
qed

theorem preset_lookup_witness:
  "getAnimationPreset ''vfx'' = Some (ANIMATION_PRESETS ! 3) \<and>
   getAnimationPreset ''dance'' = None \<and>
   generateSpritesheet (sheet \<lparr> animationPresetId := ''dance'' \<rparr>) ''tok'' 7 (world_of [Responds picture])
     = Some (Inr \<lparr> sheet_success = False, spritesheetUrl = None, sheet_frameCount = 0,
                   frameWidth = 0, frameHeight = 0, layout = ''horizontal'',
                   sheet_error = Some ''Invalid animation preset: dance'' \<rparr>,
             world_of [Responds picture])"
  using preset_lookup[of "sheet \<lparr> animationPresetId := ''dance'' \<rparr>" "''tok''" 7 "world_of [Responds picture]"]
  by (simp add: ANIMATION_PRESETS_def sheet_def)

section \<open>Ownership of assets\<close>

text \<open>
  C10, as amended. For a non-empty caller user id: when the asset does not exist or its
  \<open>user_id\<close> differs from the caller's, \<open>findById\<close> returns null, and \<open>update\<close>, \<open>delete\<close> and
  \<open>hardDelete\<close> throw "Asset not found" and leave the collection as it was.
\<close>

theorem findById_other_users_asset:
  "u \<noteq> [] \<and> (store i = None \<or> (\<exists>d. store i = Some d \<and> user_id d \<noteq> u)) \<longrightarrow>
     findById store i (Some u) = None \<and>
     update_asset store i (Some u) upd now = (Inl (Error ''Asset not found''), store) \<and>
     delete_asset store i (Some u) now = (Inl (Error ''Asset not found''), store) \<and>
     hardDelete store i (Some u) = (Inl (Error ''Asset not found''), store)"
  by (auto simp: findById_def update_asset_def delete_asset_def hardDelete_def)

theorem findById_other_users_asset_witness:
  "findById one_asset ''a1'' (Some ''u2'') = None \<and>
   update_asset one_asset ''a1'' (Some ''u2'')
       \<lparr> upd_name = Some ''stolen'', upd_project_id = None, upd_metadata = None \<rparr> 5
     = (Inl (Error ''Asset not found''), one_asset) \<and>
   delete_asset one_asset ''a1'' (Some ''u2'') 5 = (Inl (Error ''Asset not found''), one_asset) \<and>
   hardDelete one_asset ''a1'' (Some ''u2'') = (Inl (Error ''Asset not found''), one_asset) \<and>
   findById one_asset ''a2'' (Some ''u1'') = None"
  using findById_other_users_asset[of "''u2''" one_asset "''a1''"
      "\<lparr> upd_name = Some ''stolen'', upd_project_id = None, upd_metadata = None \<rparr>" 5]
    findById_other_users_asset[of "''u1''" one_asset "''a2''"]
  by (simp add: one_asset_def asset_of_def)

text \<open>
  C10, as stated, fails for the empty user id: the ownership test is skipped
  (\<open>userId && ...\<close>), so the asset of user \<open>u1\<close> is returned and can be deleted.
\<close>

theorem findById_empty_user_id:
  "findById one_asset ''a1'' (Some []) = Some (''a1'', asset_of ''u1'') \<and>
   user_id (asset_of ''u1'') \<noteq> [] \<and>
   fst (delete_asset one_asset ''a1'' (Some []) 5) = Inr ()"
  by (simp add: findById_def one_asset_def asset_of_def delete_asset_def)

section \<open>Occurrences in concatenated text\<close>

lemma sublist_separator:
  assumes "c \<notin> set t"
  shows "sublist t (xs @ c # ys) \<longleftrightarrow> sublist t xs \<or> sublist t ys"
proof
  assume "sublist t (xs @ c # ys)"
  then consider "sublist t xs" | "sublist t (c # ys)"
    | t1 t2 where "t = t1 @ t2" "suffix t1 xs" "prefix t2 (c # ys)"
    unfolding sublist_append by blast
  then show "sublist t xs \<or> sublist t ys"
  proof cases
    case 1
    then show ?thesis by simp
  next
    case 2
    then have "prefix t (c # ys) \<or> sublist t ys"
      by (simp add: sublist_Cons_right)
    moreover have "prefix t (c # ys) \<Longrightarrow> t = []"
      using assms by (cases t) auto
    ultimately show ?thesis by auto
  next
    case 3
    have "t2 = []"
      using 3(1,3) assms by (cases t2) auto
    with 3 show ?thesis by auto
  qed
next
  assume "sublist t xs \<or> sublist t ys"
  then show "sublist t (xs @ c # ys)"
    by (auto simp: sublist_append sublist_Cons_right)
qed

lemma sublist_map_iff:
  "sublist m (map f s) \<longleftrightarrow> (\<exists>w. sublist w s \<and> map f w = m)"
proof
  assume "sublist m (map f s)"
  then obtain ps ss where "map f s = ps @ m @ ss"
    by (auto simp: sublist_def)
  then have "\<exists>us vs. s = us @ vs \<and> ps = map f us \<and> m @ ss = map f vs"
    by (simp only: map_eq_append_conv)
  then obtain a vs where a: "s = a @ vs" and vs: "map f vs = m @ ss"
    by metis
  from vs have "\<exists>us' vs'. vs = us' @ vs' \<and> m = map f us' \<and> ss = map f vs'"
    by (simp only: map_eq_append_conv)
  then obtain b c where "vs = b @ c" "m = map f b"
    by blast
  with a have "s = a @ b @ c" "map f b = m"
    by simp_all
  then show "\<exists>w. sublist w s \<and> map f w = m"
    by (auto simp: sublist_def)
next
  assume "\<exists>w. sublist w s \<and> map f w = m"
  then show "sublist m (map f s)"
    using map_mono_sublist by blast
qed

lemma wantsPartialCharacter_iff:
  "wantsPartialCharacter (Some p)
     = Inr (\<exists>m \<in> set partial_markers. \<exists>w. sublist w p \<and> toLowerCase w = m)"
  by (auto simp: wantsPartialCharacter_def list_ex_iff includes_str_def toLowerCase_def
      sublist_map_iff)


section \<open>The full-body clause in the built prompt\<close>

lemma word_chars: "set full_body_word = set ''FULL-BODY''"
  by (simp add: full_body_word_def)

lemma word_nonempty: "full_body_word \<noteq> []"
  by (simp add: full_body_word_def)

lemma word_separator:
  "c \<notin> set ''FULL-BODY'' \<Longrightarrow>
   sublist full_body_word (xs @ c # ys) \<longleftrightarrow> sublist full_body_word xs \<or> sublist full_body_word ys"
  by (rule sublist_separator) (simp add: word_chars)

text \<open>The word starts with an F: no occurrence of it starts inside a text without one.\<close>

lemma skip_no_F:
  "CHR ''F'' \<notin> set s \<Longrightarrow> sublist full_body_word (s @ ys) \<longleftrightarrow> sublist full_body_word ys"
proof (induction s)
  case Nil
  then show ?case by simp
next
  case (Cons x s)
  then have "\<not> prefix full_body_word (x # s @ ys)"
    by (auto simp: full_body_word_def)
  with Cons show ?case
    by (simp add: sublist_Cons_right)
qed

lemma no_F_free: "CHR ''F'' \<notin> set s \<Longrightarrow> \<not> sublist full_body_word s"
  using skip_no_F[of s "[]"] by (simp add: word_nonempty)

lemma show_nat_digits: "set (show_nat n) \<subseteq> set ''0123456789''"
proof (induction n rule: show_nat.induct)
  case (1 n)
  have digit: "''0123456789'' ! k \<in> set ''0123456789''" if "k < 10" for k
    using that by (intro nth_mem) simp
  show ?case
  proof (cases "n < 10")
    case True
    then show ?thesis
      using digit[of n] by (subst show_nat.simps) simp
  next
    case False
    then have "set (show_nat (n div 10)) \<subseteq> set ''0123456789''"
      using 1 by simp
    moreover have "''0123456789'' ! (n mod 10) \<in> set ''0123456789''"
      by (rule digit) simp
    ultimately show ?thesis
      using False by (subst show_nat.simps) simp
  qed
qed

lemma show_nat_no_F: "CHR ''F'' \<notin> set (show_nat n)"
  using show_nat_digits[of n] by auto

lemma width_text_no_F: "CHR ''F'' \<notin> set (width_text d)"
  by (cases d) (simp_all add: show_nat_no_F)

lemma height_text_no_F: "CHR ''F'' \<notin> set (height_text d)"
  by (cases d) (simp_all add: show_nat_no_F)

lemma style_prefix_no_F: "CHR ''F'' \<notin> set (style_prefix p)"
  by (simp add: style_prefix_def)

lemma sprite_context_no_F: "CHR ''F'' \<notin> set (sprite_context p)"
  by (simp add: sprite_context_def)

lemma scene_context_no_F: "CHR ''F'' \<notin> set (scene_context p)"
  by (simp add: scene_context_def)

lemma prototype_keys_no_F: "\<forall>k \<in> set object_prototype_keys. CHR ''F'' \<notin> set k"
  by (simp add: object_prototype_keys_def)

lemma prototype_text_no_F: "k \<in> set object_prototype_keys \<Longrightarrow> CHR ''F'' \<notin> set (prototype_text k)"
  using prototype_keys_no_F by (simp add: prototype_text_def)

lemma viewpoint_text_no_F: "CHR ''F'' \<notin> set (viewpoint_text v)"
proof (cases "map_of viewpointDescriptions v")
  case None
  then show ?thesis
    by (simp add: viewpoint_text_def prototype_text_no_F)
next
  case (Some t)
  then have "(v, t) \<in> set viewpointDescriptions"
    by (rule map_of_SomeD)
  then have "CHR ''F'' \<notin> set t"
    by (auto simp: viewpointDescriptions_def)
  with Some show ?thesis
    by (simp add: viewpoint_text_def)
qed

lemma join_free:
  "\<forall>c \<in> set cs. \<not> sublist full_body_word c \<Longrightarrow> \<not> sublist full_body_word (join '', '' cs)"
proof (induction "'', ''" cs rule: join.induct)
  case 1
  then show ?case by (simp add: word_nonempty)
next
  case (2 x)
  then show ?case by simp
next
  case (3 x y ys)
  have "sublist full_body_word (x @ CHR '','' # (CHR '' '' # join '', '' (y # ys)))
        \<longleftrightarrow> sublist full_body_word x \<or> sublist full_body_word (CHR '' '' # join '', '' (y # ys))"
    by (rule word_separator) simp
  moreover have "sublist full_body_word ('' '' @ join '', '' (y # ys))
        \<longleftrightarrow> sublist full_body_word (join '', '' (y # ys))"
    by (rule skip_no_F) simp
  ultimately show ?case
    using 3 by simp
qed

lemma skip_user_text:
  "\<not> sublist full_body_word u \<Longrightarrow> c \<notin> set ''FULL-BODY'' \<Longrightarrow>
   sublist full_body_word (u @ c # ys) \<longleftrightarrow> sublist full_body_word ys"
  by (simp add: word_separator)

lemma skip_colors_text:
  assumes "\<forall>cs. colors p = Some cs \<longrightarrow> (\<forall>c \<in> set cs. \<not> sublist full_body_word c)"
  shows "sublist full_body_word (colors_text p @ ys) \<longleftrightarrow> sublist full_body_word ys"
proof (cases "colors p")
  case None
  then show ?thesis
    by (simp add: colors_text_def)
next
  case (Some cs)
  with assms have free: "\<not> sublist full_body_word (join '', '' cs)"
    by (simp add: join_free)
  have "sublist full_body_word (''Use these colors prominently in the design: '' @ (join '', '' cs @ CHR ''.'' # ('' '' @ ys)))
        \<longleftrightarrow> sublist full_body_word (join '', '' cs @ CHR ''.'' # ('' '' @ ys))"
    by (rule skip_no_F) simp
  also have "\<dots> \<longleftrightarrow> sublist full_body_word ('' '' @ ys)"
    by (rule skip_user_text[OF free]) simp
  also have "\<dots> \<longleftrightarrow> sublist full_body_word ys"
    by (rule skip_no_F) simp
  finally show ?thesis
    using Some by (simp add: colors_text_def)
qed

lemma skip_dimensions_text:
  assumes "\<forall>d. dimensions p = Some d \<longrightarrow> \<not> sublist full_body_word d"
  shows "sublist full_body_word (dimensions_text p @ ys) \<longleftrightarrow> sublist full_body_word ys"
proof (cases "dimensions p")
  case None
  then show ?thesis
    by (simp add: dimensions_text_def)
next
  case (Some d)
  with assms have free: "\<not> sublist full_body_word d"
    by simp
  have "sublist full_body_word (''The sprite should be designed to look good at '' @ (d @ CHR '' '' # (''pixel dimensions. '' @ ys)))
        \<longleftrightarrow> sublist full_body_word (d @ CHR '' '' # (''pixel dimensions. '' @ ys))"
    by (rule skip_no_F) simp
  also have "\<dots> \<longleftrightarrow> sublist full_body_word (''pixel dimensions. '' @ ys)"
    by (rule skip_user_text[OF free]) simp
  also have "\<dots> \<longleftrightarrow> sublist full_body_word ys"
    by (rule skip_no_F) simp
  finally show ?thesis
    using Some by (simp add: dimensions_text_def)
qed

lemma skip_aspect_text:
  assumes "\<not> sublist full_body_word (aspectRatio p)"
  shows "sublist full_body_word (aspect_text p @ ys) \<longleftrightarrow> sublist full_body_word ys"
proof -
  let ?d = "getImageDimensions (aspectRatio p)"
  have "CHR ''F'' \<notin> set (''The image should be '' @ width_text ?d @ ''x'' @ height_text ?d @ '' pixels ('')"
    by (simp add: width_text_no_F height_text_no_F)
  then have "sublist full_body_word
        ((''The image should be '' @ width_text ?d @ ''x'' @ height_text ?d @ '' pixels ('')
          @ (aspectRatio p @ CHR '' '' # (''aspect ratio). '' @ ys)))
      \<longleftrightarrow> sublist full_body_word (aspectRatio p @ CHR '' '' # (''aspect ratio). '' @ ys))"
    by (rule skip_no_F)
  also have "\<dots> \<longleftrightarrow> sublist full_body_word (''aspect ratio). '' @ ys)"
    by (rule skip_user_text[OF assms]) simp
  also have "\<dots> \<longleftrightarrow> sublist full_body_word ys"
    by (rule skip_no_F) simp
  finally show ?thesis
    by (simp add: aspect_text_def Let_def)
qed

lemma prompt_and_suffix_free:
  assumes "\<not> sublist full_body_word u"
  shows "\<not> sublist full_body_word (u @ quality_suffix)"
proof -
  have "sublist full_body_word (u @ CHR '' '' # ''High quality, detailed, game-ready asset.'')
        \<longleftrightarrow> sublist full_body_word ''High quality, detailed, game-ready asset.''"
    by (rule skip_user_text[OF assms]) simp
  moreover have "\<not> sublist full_body_word ''High quality, detailed, game-ready asset.''"
    by (rule no_F_free) simp
  ultimately show ?thesis
    by (simp add: quality_suffix_def)
qed


lemma sublist_chain: "sublist a b \<Longrightarrow> sublist b c \<Longrightarrow> sublist a c"
proof -
  assume "sublist a b" and "sublist b c"
  then obtain p1 s1 p2 s2 where "b = p1 @ a @ s1" and "c = p2 @ b @ s2"
    by (auto simp: sublist_def)
  then have "c = (p2 @ p1) @ a @ (s1 @ s2)"
    by simp
  then show ?thesis
    unfolding sublist_def by blast
qed

lemma word_in_clause: "sublist full_body_word full_body_clause"
proof -
  have "full_body_clause = ''IMPORTANT: Generate a '' @ full_body_word
      @ '' character showing the entire figure from head to feet. The character must be fully visible and standing, NOT cropped at the chest, waist, or knees. ''"
    by (simp add: full_body_clause_def full_body_word_def)
  then show ?thesis
    by (metis sublist_appendI)
qed

lemma type_context_partial:
  "wantsPartialCharacter (prompt ps) = Inr True \<Longrightarrow>
   type_context ps = Inr (if type ps = ''sprite'' then sprite_context ps else scene_context ps)"
  by (simp add: type_context_def)

lemma type_context_full:
  "wantsPartialCharacter (prompt ps) = Inr False \<Longrightarrow> type ps = ''sprite'' \<Longrightarrow>
   spriteType ps \<noteq> Some ''object'' \<Longrightarrow>
   type_context ps = Inr (sprite_context ps @ full_body_clause)"
  by (simp add: type_context_def)

lemma buildPrompt_embeds_prompt:
  "buildPrompt ps = Inr built \<Longrightarrow> prompt ps = Some p \<Longrightarrow> sublist p built"
proof -
  assume b: "buildPrompt ps = Inr built" and p: "prompt ps = Some p"
  then obtain ctx where "built = (style_prefix ps @ ctx @ viewpoint_text (viewpoint ps) @ aspect_text ps
               @ colors_text ps @ dimensions_text ps) @ p @ quality_suffix"
    by (auto simp: buildPrompt_def prompt_text_def split: sum.splits)
  then show ?thesis
    by (metis sublist_appendI)
qed

text \<open>
  C6, as amended. For a prompt that contains one of the nine markers, whatever the case of
  its letters, \<open>buildPrompt\<close> adds no full-body clause: when none of the caller's own texts
  (prompt, aspect ratio, colours, dimensions) contains the word FULL-BODY, the built prompt
  does not contain the clause. For a prompt that contains none of the markers, with type
  sprite and a sprite type other than object, the built prompt contains the clause.
\<close>

theorem full_body_clause_by_marker:
  assumes "prompt ps = Some p"
  shows
    "((\<exists>m \<in> set partial_markers. \<exists>w. sublist w p \<and> toLowerCase w = m) \<and>
      \<not> includes_str p full_body_word \<and> \<not> includes_str (aspectRatio ps) full_body_word \<and>
      (\<forall>cs. colors ps = Some cs \<longrightarrow> (\<forall>c \<in> set cs. \<not> includes_str c full_body_word)) \<and>
      (\<forall>d. dimensions ps = Some d \<longrightarrow> \<not> includes_str d full_body_word)
      \<longrightarrow> (\<exists>built. buildPrompt ps = Inr built \<and> \<not> includes_str built full_body_clause)) \<and>
     (\<not> (\<exists>m \<in> set partial_markers. \<exists>w. sublist w p \<and> toLowerCase w = m) \<and>
      type ps = ''sprite'' \<and> spriteType ps \<noteq> Some ''object''
      \<longrightarrow> (\<exists>built. buildPrompt ps = Inr built \<and> includes_str built full_body_clause))"
proof (intro conjI impI)
  assume h: "(\<exists>m \<in> set partial_markers. \<exists>w. sublist w p \<and> toLowerCase w = m) \<and>
      \<not> includes_str p full_body_word \<and> \<not> includes_str (aspectRatio ps) full_body_word \<and>
      (\<forall>cs. colors ps = Some cs \<longrightarrow> (\<forall>c \<in> set cs. \<not> includes_str c full_body_word)) \<and>
      (\<forall>d. dimensions ps = Some d \<longrightarrow> \<not> includes_str d full_body_word)"
  then have partial: "wantsPartialCharacter (prompt ps) = Inr True"
    using assms by (simp add: wantsPartialCharacter_iff)
  let ?ctx = "if type ps = ''sprite'' then sprite_context ps else scene_context ps"
  let ?built = "style_prefix ps @ ?ctx @ viewpoint_text (viewpoint ps) @ aspect_text ps
               @ colors_text ps @ dimensions_text ps @ p @ quality_suffix"
  have built: "buildPrompt ps = Inr ?built"
    using assms by (simp add: buildPrompt_def type_context_partial[OF partial] prompt_text_def)
  have ctx: "CHR ''F'' \<notin> set ?ctx"
    by (simp add: sprite_context_no_F scene_context_no_F)
  have "sublist full_body_word ?built
        \<longleftrightarrow> sublist full_body_word (?ctx @ viewpoint_text (viewpoint ps) @ aspect_text ps
               @ colors_text ps @ dimensions_text ps @ p @ quality_suffix)"
    by (rule skip_no_F[OF style_prefix_no_F])
  also have "\<dots> \<longleftrightarrow> sublist full_body_word (viewpoint_text (viewpoint ps) @ aspect_text ps
               @ colors_text ps @ dimensions_text ps @ p @ quality_suffix)"
    by (rule skip_no_F[OF ctx])
  also have "\<dots> \<longleftrightarrow> sublist full_body_word (aspect_text ps
               @ colors_text ps @ dimensions_text ps @ p @ quality_suffix)"
    by (rule skip_no_F[OF viewpoint_text_no_F])
  also have "\<dots> \<longleftrightarrow> sublist full_body_word (colors_text ps @ dimensions_text ps @ p @ quality_suffix)"
    using h by (intro skip_aspect_text) (simp add: includes_str_def)
  also have "\<dots> \<longleftrightarrow> sublist full_body_word (dimensions_text ps @ p @ quality_suffix)"
    using h by (intro skip_colors_text) (simp add: includes_str_def)
  also have "\<dots> \<longleftrightarrow> sublist full_body_word (p @ quality_suffix)"
    using h by (intro skip_dimensions_text) (simp add: includes_str_def)
  also have "\<dots> \<longleftrightarrow> False"
    using h prompt_and_suffix_free[of p] by (simp add: includes_str_def)
  finally have "\<not> sublist full_body_word ?built"
    by simp
  then have "\<not> sublist full_body_clause ?built"
    using word_in_clause sublist_chain by blast
  with built show "\<exists>built. buildPrompt ps = Inr built \<and> \<not> includes_str built full_body_clause"
    by (simp add: includes_str_def)
next
  assume h: "\<not> (\<exists>m \<in> set partial_markers. \<exists>w. sublist w p \<and> toLowerCase w = m) \<and>
      type ps = ''sprite'' \<and> spriteType ps \<noteq> Some ''object''"
  then have full: "wantsPartialCharacter (prompt ps) = Inr False"
    using assms by (simp add: wantsPartialCharacter_iff)
  have "buildPrompt ps = Inr ((style_prefix ps @ sprite_context ps) @ full_body_clause
          @ (viewpoint_text (viewpoint ps) @ aspect_text ps @ colors_text ps
             @ dimensions_text ps @ prompt_text ps @ quality_suffix))"
    using h by (simp add: buildPrompt_def type_context_full[OF full])
  moreover have "sublist full_body_clause ((style_prefix ps @ sprite_context ps) @ full_body_clause
          @ (viewpoint_text (viewpoint ps) @ aspect_text ps @ colors_text ps
             @ dimensions_text ps @ prompt_text ps @ quality_suffix))"
    by (rule sublist_appendI)
  ultimately show "\<exists>built. buildPrompt ps = Inr built \<and> includes_str built full_body_clause"
    by (simp add: includes_str_def)
qed


lemma lower_bust: "toLowerCase ''Bust'' = ''bust''"
  by (simp add: toLowerCase_def toLowerChar_def)

lemma knight_no_marker: "wantsPartialCharacter (Some ''a knight'') = Inr False"
  by (simp add: wantsPartialCharacter_def toLowerCase_def toLowerChar_def partial_markers_def
      includes_str_def sublist_code)

theorem full_body_clause_by_marker_witness:
  "(\<exists>built. buildPrompt (sprite_params (knight \<lparr> body_prompt := Some ''Bust of a king'' \<rparr>)) = Inr built
      \<and> \<not> includes_str built full_body_clause) \<and>
   (\<exists>built. buildPrompt (sprite_params knight) = Inr built \<and> includes_str built full_body_clause)"
proof -
  let ?king = "sprite_params (knight \<lparr> body_prompt := Some ''Bust of a king'' \<rparr>)"
  have "sublist ''Bust'' ''Bust of a king'' \<and> toLowerCase ''Bust'' = ''bust''"
    by (simp add: lower_bust sublist_code)
  then have marker: "\<exists>m \<in> set partial_markers. \<exists>w. sublist w ''Bust of a king'' \<and> toLowerCase w = m"
    by (auto simp: partial_markers_def)
  have free: "\<not> includes_str ''Bust of a king'' full_body_word \<and> \<not> includes_str ''1:1'' full_body_word
      \<and> \<not> includes_str ''64x64'' full_body_word"
    by (simp add: includes_str_def full_body_word_def sublist_code)
  have 1: "\<exists>built. buildPrompt ?king = Inr built \<and> \<not> includes_str built full_body_clause"
    using full_body_clause_by_marker[of ?king "''Bust of a king''"] marker free
    by (simp add: sprite_params_def knight_def dflt_def)
  have "\<not> (\<exists>m \<in> set partial_markers. \<exists>w. sublist w ''a knight'' \<and> toLowerCase w = m)"
    using knight_no_marker by (simp add: wantsPartialCharacter_iff)
  then have 2: "\<exists>built. buildPrompt (sprite_params knight) = Inr built \<and> includes_str built full_body_clause"
    using full_body_clause_by_marker[of "sprite_params knight" "''a knight''"]
    by (simp add: sprite_params_def knight_def dflt_def)
  from 1 2 show ?thesis by blast
qed

text \<open>
  C6, as stated, fails for a prompt that has a marker and spells out the clause itself: the
  prompt is appended as it is, so the built prompt contains the clause.
\<close>

theorem full_body_clause_from_prompt:
  "wantsPartialCharacter (body_prompt clause_in_prompt) = Inr True \<and>
   (case buildPrompt (sprite_params clause_in_prompt) of
      Inl e \<Rightarrow> False
    | Inr built \<Rightarrow> includes_str built full_body_clause)"
proof -
  have "sublist ''bust'' (''bust '' @ full_body_clause) \<and> toLowerCase ''bust'' = ''bust''"
    by (simp add: toLowerCase_def toLowerChar_def sublist_code)
  then have "\<exists>m \<in> set partial_markers. \<exists>w. sublist w (''bust '' @ full_body_clause) \<and> toLowerCase w = m"
    by (auto simp: partial_markers_def)
  then have partial: "wantsPartialCharacter (Some (''bust '' @ full_body_clause)) = Inr True"
    by (simp add: wantsPartialCharacter_iff)
  have p: "prompt (sprite_params clause_in_prompt) = Some (''bust '' @ full_body_clause)"
    by (simp add: sprite_params_def clause_in_prompt_def)
  have "type_context (sprite_params clause_in_prompt) = Inr (sprite_context (sprite_params clause_in_prompt))"
    using type_context_partial[of "sprite_params clause_in_prompt"] partial p
    by (simp add: sprite_params_def)
  then obtain built where built: "buildPrompt (sprite_params clause_in_prompt) = Inr built"
    by (simp add: buildPrompt_def)
  then have "sublist (''bust '' @ full_body_clause) built"
    using p by (rule buildPrompt_embeds_prompt)
  moreover have "sublist full_body_clause (''bust '' @ full_body_clause)"
    by (rule sublist_append_leftI)
  ultimately have "sublist full_body_clause built"
    using sublist_chain by blast
  with built partial show ?thesis
    by (simp add: includes_str_def clause_in_prompt_def knight_def)
qed

section \<open>The quantity sent to the providers\<close>

lemma emits_mono: "emits m A B k \<Longrightarrow> k \<le> n \<Longrightarrow> emits m A B n"
  unfolding emits_def by (meson order_trans)

lemma emits_return: "emits (return_io x) A B n"
  by (simp add: emits_def return_io_def)

lemma emits_throw: "emits (throw_io e) A B n"
  by (simp add: emits_def throw_io_def)

lemma emits_lift: "emits (lift_io r) A B n"
  by (cases r) (simp_all add: lift_io_def emits_return emits_throw)

lemma emits_fetch: "A rq \<Longrightarrow> (B rq \<Longrightarrow> 1 \<le> n) \<Longrightarrow> emits (await_fetch rq) A B n"
  by (auto simp: emits_def await_fetch_def fetch_def split: list.splits fetch_result.splits)

lemma emits_bind:
  assumes m: "emits m A B k" and f: "\<And>x. emits (f x) A B l" and n: "k + l \<le> n"
  shows "emits (bind_io m f) A B n"
  unfolding emits_def
proof (intro allI impI)
  fix w r w'
  assume run: "bind_io m f w = Some (r, w')"
  then obtain r1 w1 where m1: "m w = Some (r1, w1)"
    by (auto simp: bind_io_def split: option.splits)
  with m obtain new1 where 1: "log w1 = log w @ new1" "list_all A new1" "length (filter B new1) \<le> k"
    unfolding emits_def by blast
  show "\<exists>new. log w' = log w @ new \<and> list_all A new \<and> length (filter B new) \<le> n"
  proof (cases r1)
    case (Inl e)
    with run m1 have "w' = w1"
      by (simp add: bind_io_def)
    with 1 n show ?thesis by auto
  next
    case (Inr x)
    with run m1 have "f x w1 = Some (r, w')"
      by (simp add: bind_io_def)
    with f[of x] obtain new2 where 2: "log w' = log w1 @ new2" "list_all A new2" "length (filter B new2) \<le> l"
      unfolding emits_def by blast
    from 1 2 n have "log w' = log w @ (new1 @ new2) \<and> list_all A (new1 @ new2)
        \<and> length (filter B (new1 @ new2)) \<le> n"
      by simp
    then show ?thesis by blast
  qed
qed

lemma emits_catch:
  assumes m: "emits m A B k" and h: "\<And>e. emits (h e) A B l" and n: "k + l \<le> n"
  shows "emits (catch_io m h) A B n"
  unfolding emits_def
proof (intro allI impI)
  fix w r w'
  assume run: "catch_io m h w = Some (r, w')"
  then obtain r1 w1 where m1: "m w = Some (r1, w1)"
    by (auto simp: catch_io_def split: option.splits)
  with m obtain new1 where 1: "log w1 = log w @ new1" "list_all A new1" "length (filter B new1) \<le> k"
    unfolding emits_def by blast
  show "\<exists>new. log w' = log w @ new \<and> list_all A new \<and> length (filter B new) \<le> n"
  proof (cases r1)
    case (Inr x)
    with run m1 have "w' = w1"
      by (simp add: catch_io_def)
    with 1 n show ?thesis by auto
  next
    case (Inl e)
    with run m1 have "h e w1 = Some (r, w')"
      by (simp add: catch_io_def)
    with h[of e] obtain new2 where 2: "log w' = log w1 @ new2" "list_all A new2" "length (filter B new2) \<le> l"
      unfolding emits_def by blast
    from 1 2 n have "log w' = log w @ (new1 @ new2) \<and> list_all A (new1 @ new2)
        \<and> length (filter B (new1 @ new2)) \<le> n"
      by simp
    then show ?thesis by blast
  qed
qed

lemma poll_loop_log:
  "poll_loop mk p w = Some (r, w') \<Longrightarrow> (\<And>q. A (mk q) \<and> \<not> B (mk q)) \<Longrightarrow>
   \<exists>new. log w' = log w @ new \<and> list_all A new \<and> length (filter B new) \<le> 0"
proof (induction mk p w rule: poll_loop.induct)
  case (1 mk p w)
  note ok = "1.prems"(2)
  show ?case
  proof (cases "terminal p")
    case True
    with "1.prems"(1) show ?thesis
      by (simp add: poll_loop.simps)
  next
    case False
    show ?thesis
    proof (cases "script w")
      case Nil
      with False "1.prems"(1) show ?thesis
        by (simp add: poll_loop.simps fetch_def)
    next
      case (Cons x xs)
      let ?w1 = "\<lparr> script = xs, log = log w @ [mk p] \<rparr>"
      have f: "fetch (mk p) w = Some (x, ?w1)"
        using Cons by (simp add: fetch_def)
      show ?thesis
      proof (cases x)
        case (Rejects msg)
        with False f "1.prems"(1) have "w' = ?w1"
          by (simp add: poll_loop.simps)
        then show ?thesis
          using ok[of p] by auto
      next
        case (Responds resp)
        show ?thesis
        proof (cases "json_prediction resp")
          case (Inl e)
          with False f Responds "1.prems"(1) have "w' = ?w1"
            by (simp add: poll_loop.simps)
          then show ?thesis
            using ok[of p] by auto
        next
          case (Inr p')
          with False f Responds "1.prems"(1) have "poll_loop mk p' ?w1 = Some (r, w')"
            by (simp add: poll_loop.simps)
          with "1.IH"[OF False f refl Responds Inr] ok
          obtain new where "log w' = log ?w1 @ new" "list_all A new" "length (filter B new) \<le> 0"
            by blast
          then have "log w' = log w @ (mk p # new) \<and> list_all A (mk p # new)
              \<and> length (filter B (mk p # new)) \<le> 0"
            using ok[of p] by simp
          then show ?thesis by blast
        qed
      qed
    qed
  qed
qed

lemma emits_poll_loop:
  "(\<And>q. A (mk q) \<and> \<not> B (mk q)) \<Longrightarrow> emits (poll_loop mk p) A B 0"
  unfolding emits_def using poll_loop_log[of mk p _ _ _ A B] by blast


lemma emits_bind0: "emits m A B 0 \<Longrightarrow> (\<And>x. emits (f x) A B n) \<Longrightarrow> emits (bind_io m f) A B n"
  by (rule emits_bind[where k = 0 and l = n]) simp_all

lemma emits_bind_then0: "emits m A B n \<Longrightarrow> (\<And>x. emits (f x) A B 0) \<Longrightarrow> emits (bind_io m f) A B n"
  by (rule emits_bind[where k = n and l = 0]) simp_all

lemma emits_catch_then0: "emits m A B n \<Longrightarrow> (\<And>e. emits (h e) A B 0) \<Longrightarrow> emits (catch_io m h) A B n"
  by (rule emits_catch[where k = n and l = 0]) simp_all

lemma emits_if: "emits a A B n \<Longrightarrow> emits b A B n \<Longrightarrow> emits (if c then a else b) A B n"
  by simp

subsection \<open>The requests of each operation\<close>

lemma poll_request_quiet: "num_ok q (poll_request tok p) \<and> \<not> is_item_call (poll_request tok p)"
  by (simp add: num_ok_def num_images_def is_item_call_def is_gemini_call_def is_sheet_job_def
      poll_request_def)

lemma image_request_quiet: "num_ok q (image_request u) \<and> \<not> is_item_call (image_request u)"
  by (simp add: num_ok_def num_images_def is_item_call_def is_gemini_call_def is_sheet_job_def
      image_request_def)

lemma legacy_request_quiet:
  "(\<And>p n i. input = RdPlusInput p n i \<Longrightarrow> n = q) \<Longrightarrow>
   num_ok q (legacy_request tok model input) \<and> \<not> is_item_call (legacy_request tok model input)"
  by (auto simp: num_ok_def num_images_def is_item_call_def is_gemini_call_def is_sheet_job_def
      legacy_request_def split: replicate_input.splits)

lemma create_request_ok:
  "(\<And>p n i. input = RdPlusInput p n i \<Longrightarrow> n = q) \<Longrightarrow> num_ok q (create_request tok model input)"
  by (auto simp: num_ok_def num_images_def create_request_def split: replicate_input.splits)

lemma create_request_no_gemini: "\<not> is_gemini_call (create_request tok model input)"
  by (simp add: is_gemini_call_def create_request_def)

lemma emits_after_create:
  "emits
     (if \<not> ok resp then throw_io e
      else bind_io (lift_io (json_prediction resp)) (\<lambda>started.
           bind_io (poll_loop (poll_request tok) started) (\<lambda>prediction.
             if status prediction = ''failed'' then throw_io (e' prediction)
             else return_io (poutput prediction))))
     (num_ok q) is_item_call 0"
  by (intro emits_if emits_throw emits_bind0 emits_lift emits_poll_loop poll_request_quiet
      emits_return)

lemma emits_callReplicate:
  assumes "\<And>p n i. input = RdPlusInput p n i \<Longrightarrow> n = q"
  shows "emits (callReplicate tok model input) (num_ok q) is_item_call 1"
  unfolding callReplicate_def
proof (rule emits_bind0)
  show "emits (await_fetch (legacy_request tok model input)) (num_ok q) is_item_call 0"
    using legacy_request_quiet[where tok = tok and model = model, OF assms] by (intro emits_fetch) auto
next
  fix createResponse
  show "emits
     (bind_io (await_fetch (create_request tok model input)) (\<lambda>startForRealResponse.
        if \<not> ok startForRealResponse then
          throw_io (Error (''Replicate API error: '' @ show_nat (http_status startForRealResponse)
                          @ '' - '' @ error_json_text startForRealResponse))
        else
          bind_io (lift_io (json_prediction startForRealResponse)) (\<lambda>started.
          bind_io (poll_loop (poll_request tok) started) (\<lambda>prediction.
            if status prediction = ''failed''
            then throw_io (job_error prediction ''Replicate generation failed'')
            else return_io (poutput prediction)))))
     (num_ok q) is_item_call 1"
  proof (rule emits_bind_then0)
    show "emits (await_fetch (create_request tok model input)) (num_ok q) is_item_call 1"
      using create_request_ok[where tok = tok and model = model, OF assms] by (intro emits_fetch) auto
  qed (rule emits_after_create)
qed

lemma emits_callReplicate_other:
  assumes "\<And>p n i. input = RdPlusInput p n i \<Longrightarrow> n = q"
    and "\<not> is_sheet_job (create_request tok model input)"
  shows "emits (callReplicate tok model input) (num_ok q) is_item_call 0"
  unfolding callReplicate_def
proof (rule emits_bind0)
  show "emits (await_fetch (legacy_request tok model input)) (num_ok q) is_item_call 0"
    using legacy_request_quiet[where tok = tok and model = model, OF assms(1)] by (intro emits_fetch) auto
next
  fix createResponse
  show "emits
     (bind_io (await_fetch (create_request tok model input)) (\<lambda>startForRealResponse.
        if \<not> ok startForRealResponse then
          throw_io (Error (''Replicate API error: '' @ show_nat (http_status startForRealResponse)
                          @ '' - '' @ error_json_text startForRealResponse))
        else
          bind_io (lift_io (json_prediction startForRealResponse)) (\<lambda>started.
          bind_io (poll_loop (poll_request tok) started) (\<lambda>prediction.
            if status prediction = ''failed''
            then throw_io (job_error prediction ''Replicate generation failed'')
            else return_io (poutput prediction)))))
     (num_ok q) is_item_call 0"
  proof (rule emits_bind0)
    show "emits (await_fetch (create_request tok model input)) (num_ok q) is_item_call 0"
      using create_request_ok[where tok = tok and model = model, OF assms(1)] assms(2) create_request_no_gemini[of tok model input]
      by (intro emits_fetch) (auto simp: is_item_call_def)
  qed (rule emits_after_create)
qed

lemma emits_fetch_data_url: "emits (fetch_data_url d u) (num_ok q) is_item_call 0"
  unfolding fetch_data_url_def
  using image_request_quiet
  by (cases u) (auto intro!: emits_throw emits_bind0 emits_fetch emits_return)

lemma emits_fetch_all: "emits (fetch_all d us imgs) (num_ok q) is_item_call 0"
  by (induction us arbitrary: imgs) (auto intro!: emits_return emits_bind0 emits_fetch_data_url)

lemma emits_refine: "emits (refinePromptWithIntelligence u ctx tok) (num_ok q) is_item_call 0"
  unfolding refinePromptWithIntelligence_def
proof (rule emits_bind0[OF emits_lift])
  fix isPartialCharacter :: bool
  show "emits
     (case u of
        None \<Rightarrow> throw_io (TypeError ''Cannot read properties of undefined (reading 'toLowerCase')'')
      | Some a \<Rightarrow>
          catch_io
            (bind_io (callReplicate tok ''google/gemini-2.5-flash''
                        (RefineInput a (prompt_context.truncate ctx))) (\<lambda>out.
               let result = refined_text out
               in return_io (if truthy result then the result else a)))
            (\<lambda>e. lift_io (buildPrompt ctx)))
     (num_ok q) is_item_call 0"
  proof (cases u)
    case None
    then show ?thesis by (simp add: emits_throw)
  next
    case (Some a)
    have "emits (callReplicate tok ''google/gemini-2.5-flash'' (RefineInput a (prompt_context.truncate ctx)))
        (num_ok q) is_item_call 0"
      by (rule emits_callReplicate_other) (simp_all add: is_sheet_job_def create_request_def)
    then show ?thesis
      using Some by (auto intro!: emits_catch_then0 emits_bind0 emits_lift emits_return simp: Let_def)
  qed
qed


lemma emits_failure: "emits (failure prov e) A B n"
  by (simp add: failure_def emits_return)

lemma emits_finish: "emits (finish prov imgs) A B n"
  by (simp add: finish_def emits_return emits_throw)

lemma emits_generateWithQwen:
  "emits (generateWithQwen refinedPrompt pose ctx tok) (num_ok q) is_item_call 0"
  unfolding generateWithQwen_def
proof (rule emits_bind0)
  show "emits (callReplicate tok ''qwen/qwen-image-edit-plus'' (QwenInput refinedPrompt pose))
      (num_ok q) is_item_call 0"
    by (rule emits_callReplicate_other) (simp_all add: is_sheet_job_def create_request_def)
qed (rule emits_return)

lemma emits_generateWithReplicate:
  "emits (generateWithReplicate ps tok modelId) (num_ok (quantity ps)) is_item_call 0"
  unfolding generateWithReplicate_def
proof (intro emits_catch_then0 emits_failure emits_bind0 emits_refine emits_if emits_finish
    emits_generateWithQwen emits_fetch_all)
  fix finalPrompt
  show "emits (callReplicate tok ''retro-diffusion/rd-plus''
          (RdPlusInput finalPrompt (quantity ps)
             (if truthy (referenceImage ps) then referenceImage ps else None)))
        (num_ok (quantity ps)) is_item_call 0"
    by (rule emits_callReplicate_other) (simp_all add: is_sheet_job_def create_request_def)
qed

lemma gemini_request_ok: "num_ok q (gemini_request key txt parts)"
  by (simp add: num_ok_def num_images_def gemini_request_def)

lemma emits_gemini_rounds:
  "emits (gemini_rounds ps key fullPrompt is imgs) (num_ok q) is_item_call (length is)"
proof (induction "is" arbitrary: imgs)
  case Nil
  then show ?case by (simp add: emits_return)
next
  case (Cons i rest)
  show ?case
    unfolding gemini_rounds.simps
  proof (rule emits_bind[where k = 1 and l = "length rest"])
    show "emits (await_fetch (gemini_request key (fullPrompt @ variation_text i)
              (inline_parts (referenceImage ps) @ inline_parts (poseImage ps))))
          (num_ok q) is_item_call 1"
      by (intro emits_fetch gemini_request_ok) simp
  next
    fix response
    show "emits
       (if \<not> ok response then
          throw_io (Error (''Gemini API error: '' @ show_nat (http_status response) @ '' - ''
                          @ error_json_text response))
        else
          bind_io (lift_io (json_data response)) (\<lambda>d.
            gemini_rounds ps key fullPrompt rest
              (case candidate_image d of None \<Rightarrow> imgs | Some img \<Rightarrow> imgs @ [img])))
       (num_ok q) is_item_call (length rest)"
      by (intro emits_if emits_throw emits_bind0 emits_lift Cons.IH)
  qed simp
qed

lemma emits_generateWithGemini:
  "emits (generateWithGemini ps key) (num_ok q) is_item_call (nat (quantity ps))"
  unfolding generateWithGemini_def
proof (rule emits_catch_then0[OF _ emits_failure], rule emits_bind0[OF emits_lift],
    rule emits_bind_then0[OF _ emits_finish])
  fix fullPrompt
  show "emits (gemini_rounds ps key fullPrompt [0..<nat (quantity ps)] [])
      (num_ok q) is_item_call (nat (quantity ps))"
    using emits_gemini_rounds[of ps key fullPrompt "[0..<nat (quantity ps)]" "[]" q] by simp
qed

lemma emits_generateImages:
  "emits (generateImages ps opts ev) (num_ok (quantity ps)) is_item_call (nat (quantity ps))"
  unfolding generateImages_def
  by (intro emits_if emits_generateWithGemini emits_return
      emits_mono[OF emits_generateWithReplicate]) simp_all

lemma emits_direct_rounds:
  "emits (direct_rounds tok pl is imgs) (num_ok q) is_item_call (length is)"
proof (induction "is" arbitrary: imgs)
  case Nil
  then show ?case by (simp add: emits_return)
next
  case (Cons i rest)
  show ?case
    unfolding direct_rounds.simps
  proof (rule emits_bind[where k = 1 and l = "length rest"])
    show "emits (callReplicate tok ''retro-diffusion/rd-animation'' (DirectInput pl))
        (num_ok q) is_item_call 1"
      by (rule emits_callReplicate) simp
  next
    fix out
    show "emits (bind_io (fetch_all ''image/png'' (as_array out) imgs) (\<lambda>imgs'.
             direct_rounds tok pl rest imgs')) (num_ok q) is_item_call (length rest)"
      by (intro emits_bind0 emits_fetch_all Cons.IH)
  qed simp
qed

lemma emits_direct_body:
  "emits
     (bind_io first (\<lambda>finalPrompt.
        let n = or_int (da_quantity ps) 1
        in bind_io (direct_rounds tok (direct_payload_of ps finalPrompt) [0 ..< nat n] [])
             (\<lambda>imgs. return_io \<lparr> success = True, images = imgs, error = None,
                        provider = Some ''replicate'' \<rparr>)))
     (num_ok q) is_item_call (nat (or_int (da_quantity ps) 1))"
  if "emits first (num_ok q) is_item_call 0"
proof (rule emits_bind0[OF that])
  fix finalPrompt
  have "emits (direct_rounds tok (direct_payload_of ps finalPrompt)
          [0..<nat (or_int (da_quantity ps) 1)] [])
        (num_ok q) is_item_call (nat (or_int (da_quantity ps) 1))"
    using emits_direct_rounds[of tok "direct_payload_of ps finalPrompt"
        "[0..<nat (or_int (da_quantity ps) 1)]" "[]" q] by simp
  then show "emits
     (let n = or_int (da_quantity ps) 1
      in bind_io (direct_rounds tok (direct_payload_of ps finalPrompt) [0 ..< nat n] [])
           (\<lambda>imgs. return_io \<lparr> success = True, images = imgs, error = None,
                      provider = Some ''replicate'' \<rparr>))
     (num_ok q) is_item_call (nat (or_int (da_quantity ps) 1))"
    unfolding Let_def by (rule emits_bind_then0) (rule emits_return)
qed

lemma emits_generateDirectAnimation:
  "emits (generateDirectAnimation ps opts ev) (num_ok q) is_item_call
     (nat (or_int (da_quantity ps) 1))"
proof -
  have first: "emits
      (if bypass_prompt_expansion ps = Some True then return_io (da_prompt ps)
       else bind_io (refinePromptWithIntelligence (da_prompt ps) (direct_context ps) tok)
              (\<lambda>refined. return_io (Some refined)))
      (num_ok q) is_item_call 0" for tok
    by (intro emits_if emits_return emits_bind0 emits_refine)
  show ?thesis
    unfolding generateDirectAnimation_def
    by (simp only: Let_def)
       (intro emits_if emits_return emits_catch_then0 emits_failure emits_direct_body[unfolded Let_def] first)
qed


lemma emits_sent:
  "emits m A B n \<Longrightarrow> m w = Some (r, w') \<Longrightarrow>
   list_all A (sent w w') \<and> length (filter B (sent w w')) \<le> n"
proof -
  assume "emits m A B n" and "m w = Some (r, w')"
  then obtain new where "log w' = log w @ new" "list_all A new" "length (filter B new) \<le> n"
    unfolding emits_def by blast
  then show ?thesis
    by (simp add: sent_def)
qed

lemma gemini_calls_le: "length (filter is_gemini_call xs) \<le> length (filter is_item_call xs)"
proof -
  have "filter is_gemini_call xs = filter is_gemini_call (filter is_item_call xs)"
    by (simp add: is_item_call_def conj_commute cong: conj_cong)
  then show ?thesis
    by (metis length_filter_le)
qed

lemma sheet_jobs_le: "length (filter is_sheet_job xs) \<le> length (filter is_item_call xs)"
proof -
  have "filter is_sheet_job xs = filter is_sheet_job (filter is_item_call xs)"
    by (simp add: is_item_call_def conj_commute cong: conj_cong)
  then show ?thesis
    by (metis length_filter_le)
qed

lemma images_quantity_sent:
  assumes "generateImages ps opts ev w = Some (r, w')"
  shows "(\<forall>rq \<in> set (sent w w'). \<forall>n. num_images rq = Some n \<longrightarrow> n = quantity ps) \<and>
         length (filter is_gemini_call (sent w w')) \<le> nat (quantity ps)"
proof -
  from emits_sent[OF emits_generateImages assms]
  have "list_all (num_ok (quantity ps)) (sent w w')"
    and "length (filter is_item_call (sent w w')) \<le> nat (quantity ps)"
    by simp_all
  then show ?thesis
    using gemini_calls_le[of "sent w w'"] by (auto simp: list_all_iff num_ok_def)
qed

text \<open>
  C1, as amended. The routes pass on the requested quantity capped at 4 (the default is 2, and
  1 for the direct animation, when the request names none). Every text-to-image request the
  sprite and scene routes make carries that value as \<open>num_images\<close>, and they make at most
  that many Gemini calls; the direct-animation route creates at most that many sheet jobs
  (one when the capped value is 0). So no provider is asked for more than 4; for a requested
  quantity of at least 1 the value is at least 1; and a requested 10 gives 4.
\<close>

theorem quantity_sent:
  "(sprite_route b ev w = Some (r, w') \<longrightarrow>
      (\<forall>rq \<in> set (sent w w'). \<forall>n. num_images rq = Some n \<longrightarrow> n = min (dflt (body_quantity b) 2) 4) \<and>
      length (filter is_gemini_call (sent w w')) \<le> nat (min (dflt (body_quantity b) 2) 4)) \<and>
   (scene_route b ev w = Some (r, w') \<longrightarrow>
      (\<forall>rq \<in> set (sent w w'). \<forall>n. num_images rq = Some n \<longrightarrow> n = min (dflt (body_quantity b) 2) 4) \<and>
      length (filter is_gemini_call (sent w w')) \<le> nat (min (dflt (body_quantity b) 2) 4)) \<and>
   (direct_animation_route b ev w = Some (r, w') \<longrightarrow>
      length (filter is_sheet_job (sent w w'))
        \<le> nat (or_int (Some (min (dflt (body_quantity b) 1) 4)) 1)) \<and>
   min (dflt (body_quantity b) 2) 4 \<le> 4 \<and>
   nat (or_int (Some (min (dflt (body_quantity b) 1) 4)) 1) \<le> 4 \<and>
   (1 \<le> dflt (body_quantity b) 2 \<longrightarrow> 1 \<le> min (dflt (body_quantity b) 2) 4) \<and>
   (1 \<le> dflt (body_quantity b) 1 \<longrightarrow>
      1 \<le> or_int (Some (min (dflt (body_quantity b) 1) 4)) 1) \<and>
   (body_quantity b = Some 10 \<longrightarrow>
      min (dflt (body_quantity b) 2) 4 = 4 \<and>
      or_int (Some (min (dflt (body_quantity b) 1) 4)) 1 = 4)"
proof (intro conjI impI)
  assume "sprite_route b ev w = Some (r, w')"
  then have "generateImages (sprite_params b) (route_options b) ev w = Some (r, w')"
    by (simp add: sprite_route_def)
  from images_quantity_sent[OF this]
  show "\<forall>rq \<in> set (sent w w'). \<forall>n. num_images rq = Some n \<longrightarrow> n = min (dflt (body_quantity b) 2) 4"
    and "length (filter is_gemini_call (sent w w')) \<le> nat (min (dflt (body_quantity b) 2) 4)"
    by (simp_all add: sprite_params_def)
next
  assume "scene_route b ev w = Some (r, w')"
  then have "generateImages (scene_params b) (route_options b) ev w = Some (r, w')"
    by (simp add: scene_route_def)
  from images_quantity_sent[OF this]
  show "\<forall>rq \<in> set (sent w w'). \<forall>n. num_images rq = Some n \<longrightarrow> n = min (dflt (body_quantity b) 2) 4"
    and "length (filter is_gemini_call (sent w w')) \<le> nat (min (dflt (body_quantity b) 2) 4)"
    by (simp_all add: scene_params_def)
next
  assume "direct_animation_route b ev w = Some (r, w')"
  then have "generateDirectAnimation (direct_animation_params b) (route_options b) ev w = Some (r, w')"
    by (simp add: direct_animation_route_def)
  from emits_sent[OF emits_generateDirectAnimation this, of 0]
  have "length (filter is_item_call (sent w w'))
      \<le> nat (or_int (da_quantity (direct_animation_params b)) 1)"
    by simp
  then show "length (filter is_sheet_job (sent w w'))
        \<le> nat (or_int (Some (min (dflt (body_quantity b) 1) 4)) 1)"
    using sheet_jobs_le[of "sent w w'"] by (simp add: direct_animation_params_def)
qed (auto simp: or_int_def dflt_def split: option.splits)


lemmas sprite_run_defs = sprite_route_def generateImages_def route_options_def sprite_params_def
  ask_def knight_def platform_def dflt_def or_string_def generateWithReplicate_def
  refinePromptWithIntelligence_def wantsPartialCharacter_def toLowerCase_def toLowerChar_def
  partial_markers_def includes_str_def sublist_code callReplicate_def io_defs
  legacy_request_def create_request_def http_failure_def job_def refined_job_def
  json_prediction_def poll_loop.simps terminal_def refined_text_def as_array_def
  fetch_data_url_def image_request_def picture_def finish_def failure_def world_of_def
  prompt_context.truncate_def sprite_requests_def

lemma sprite_run_10:
  "sprite_route (ask 10) platform sprite_world
     = Some (Inr \<lparr> success = True, images = [''data:image/png;base64,iVBORw0KGgo=''],
                   error = None, provider = Some ''replicate'' \<rparr>,
             \<lparr> script = [], log = sprite_requests 10 @ [image_request ''https://out/1.png''] \<rparr>)"
  by (simp add: sprite_run_defs sprite_world_def)

lemma sprite_run_0:
  "sprite_route (ask 0) platform no_output_world
     = Some (Inr \<lparr> success = False, images = [], error = Some ''No images generated'',
                   provider = Some ''replicate'' \<rparr>,
             \<lparr> script = [], log = sprite_requests 0 \<rparr>)"
  by (simp add: sprite_run_defs no_output_world_def)


lemma sent_from_start: "sent (world_of rs) w' = log w'"
  by (simp add: sent_def world_of_def)

lemmas request_kind_defs = num_images_def is_gemini_call_def is_sheet_job_def sprite_requests_def
  legacy_request_def create_request_def image_request_def

theorem quantity_sent_witness:
  "sprite_route (ask 10) platform sprite_world
     = Some (Inr \<lparr> success = True, images = [''data:image/png;base64,iVBORw0KGgo=''],
                   error = None, provider = Some ''replicate'' \<rparr>, sprite_world_after) \<and>
   map num_images (sent sprite_world sprite_world_after) = [None, None, Some 4, Some 4, None] \<and>
   length (filter is_gemini_call (sent sprite_world sprite_world_after)) \<le> 4 \<and>
   scene_route (ask 10) no_keys sprite_world
     = Some (Inr \<lparr> success = False, images = [],
                   error = Some ''No API key configured. Please add your own API key in settings or contact support.'',
                   provider = None \<rparr>, sprite_world) \<and>
   direct_animation_route (ask 10) no_keys sprite_world
     = Some (Inr \<lparr> success = False, images = [], error = Some ''No API key configured.'',
                   provider = None \<rparr>, sprite_world) \<and>
   length (filter is_sheet_job (sent sprite_world sprite_world)) \<le> 4 \<and>
   min (dflt (body_quantity (ask 10)) 2) 4 = 4 \<and>
   or_int (Some (min (dflt (body_quantity (ask 10)) 1) 4)) 1 = 4"
proof -
  let ?ok = "Inr \<lparr> success = True, images = [''data:image/png;base64,iVBORw0KGgo=''],
                   error = None, provider = Some ''replicate'' \<rparr>"
  let ?no_key = "Inr \<lparr> success = False, images = [],
                   error = Some ''No API key configured. Please add your own API key in settings or contact support.'',
                   provider = None \<rparr>"
  let ?no_token = "Inr \<lparr> success = False, images = [], error = Some ''No API key configured.'',
                   provider = None \<rparr>"
  have sprite: "sprite_route (ask 10) platform sprite_world = Some (?ok, sprite_world_after)"
    using sprite_run_10 by (simp add: sprite_world_after_def)
  have scene: "scene_route (ask 10) no_keys sprite_world = Some (?no_key, sprite_world)"
    by (simp add: scene_route_def generateImages_def route_options_def ask_def knight_def
        no_keys_def return_io_def)
  have direct: "direct_animation_route (ask 10) no_keys sprite_world = Some (?no_token, sprite_world)"
    by (simp add: direct_animation_route_def generateDirectAnimation_def route_options_def ask_def
        knight_def no_keys_def return_io_def)
  have nums: "map num_images (sent sprite_world sprite_world_after) = [None, None, Some 4, Some 4, None]"
    by (simp add: sprite_world_def sent_from_start sprite_world_after_def request_kind_defs)
  have ten: "body_quantity (ask 10) = Some 10"
    by (simp add: ask_def)
  from quantity_sent[of "ask 10" platform sprite_world ?ok sprite_world_after] sprite ten
  have 1: "length (filter is_gemini_call (sent sprite_world sprite_world_after)) \<le> 4"
    and 2: "min (dflt (body_quantity (ask 10)) 2) 4 = 4"
    and 3: "or_int (Some (min (dflt (body_quantity (ask 10)) 1) 4)) 1 = 4"
    by (simp_all add: dflt_def)
  from quantity_sent[of "ask 10" no_keys sprite_world ?no_token sprite_world] direct ten
  have 4: "length (filter is_sheet_job (sent sprite_world sprite_world)) \<le> 4"
    by (simp add: dflt_def or_int_def)
  from quantity_sent[of "ask 10" no_keys sprite_world ?no_key sprite_world] scene
  have "length (filter is_gemini_call (sent sprite_world sprite_world)) \<le> nat (min (dflt (body_quantity (ask 10)) 2) 4)"
    by simp
  from sprite scene direct nums 1 2 3 4 show ?thesis
    by simp
qed

text \<open>
  C1, as stated, fails for a requested quantity of 0: the sprite route sends
  \<open>num_images: 0\<close> to the text-to-image model.
\<close>

theorem zero_quantity_sent:
  "sprite_route (ask 0) platform no_output_world
     = Some (Inr \<lparr> success = False, images = [], error = Some ''No images generated'',
                   provider = Some ''replicate'' \<rparr>, no_output_world_after) \<and>
   map num_images (sent no_output_world no_output_world_after) = [None, None, Some 0, Some 0]"
  using sprite_run_0
  by (simp add: no_output_world_after_def no_output_world_def sent_from_start request_kind_defs)

section \<open>Further properties\<close>

lemma yields_bind: "(\<And>x. yields (f x) P) \<Longrightarrow> yields (bind_io m f) P"
  unfolding yields_def bind_io_def
  by (auto split: option.splits sum.splits prod.splits)

lemma yields_if: "yields a P \<Longrightarrow> yields b P \<Longrightarrow> yields (if c then a else b) P"
  by simp

lemma yields_finish: "yields (finish prov imgs) good_result"
  by (simp add: yields_def finish_def throw_io_def return_io_def good_result_def)

lemma caught_result:
  assumes "catch_io m (failure prov) w = Some (r, w')" and "yields m good_result"
  shows "\<exists>res. r = Inr res \<and> good_result res"
proof -
  from assms(1) obtain r1 w1 where m: "m w = Some (r1, w1)"
    by (auto simp: catch_io_def split: option.splits)
  show ?thesis
  proof (cases r1)
    case (Inl e)
    with m assms(1) show ?thesis
      by (auto simp: catch_io_def failure_def return_io_def good_result_def)
  next
    case (Inr x)
    with m assms show ?thesis
      by (auto simp: catch_io_def yields_def)
  qed
qed

lemma generateWithReplicate_result:
  "generateWithReplicate ps tok modelId w = Some (r, w') \<Longrightarrow> \<exists>res. r = Inr res \<and> good_result res"
  unfolding generateWithReplicate_def
  by (erule caught_result) (intro yields_bind yields_finish)

lemma generateWithGemini_result:
  "generateWithGemini ps key w = Some (r, w') \<Longrightarrow> \<exists>res. r = Inr res \<and> good_result res"
  unfolding generateWithGemini_def
  by (erule caught_result) (intro yields_bind yields_finish)

text \<open>
  Whatever \<open>generateImages\<close> returns is a result, never an exception; with \<open>success: true\<close>
  its images are not empty, and with \<open>success: false\<close> it has no images and an error text.
\<close>

theorem generateImages_result:
  "generateImages ps opts ev w = Some (r, w') \<Longrightarrow>
   \<exists>res. r = Inr res \<and> (success res \<longrightarrow> images res \<noteq> []) \<and>
         (\<not> success res \<longrightarrow> images res = [] \<and> error res \<noteq> None)"
  using generateWithReplicate_result[of ps _ _ w r w'] generateWithGemini_result[of ps _ w r w']
  by (auto simp: generateImages_def return_io_def good_result_def split: if_splits)

theorem generateImages_result_witness:
  "sprite_route (ask 10) platform sprite_world
     = Some (Inr \<lparr> success = True, images = [''data:image/png;base64,iVBORw0KGgo=''],
                   error = None, provider = Some ''replicate'' \<rparr>, sprite_world_after) \<and>
   sprite_route (ask 0) platform no_output_world
     = Some (Inr \<lparr> success = False, images = [], error = Some ''No images generated'',
                   provider = Some ''replicate'' \<rparr>, no_output_world_after)"
  using generateImages_result[of "sprite_params (ask 10)" "route_options (ask 10)" platform
      sprite_world _ sprite_world_after]
    sprite_run_10 sprite_run_0
  by (simp add: sprite_world_after_def no_output_world_after_def)


lemma show_nat_table:
  "show_nat 688 = ''688''" "show_nat 1024 = ''1024''" "show_nat 576 = ''576''"
  "show_nat 768 = ''768''"
  by code_simp+

lemma buildPrompt_embeds_aspect_text:
  "buildPrompt ps = Inr built \<Longrightarrow> sublist (aspect_text ps) built"
proof -
  assume "buildPrompt ps = Inr built"
  then obtain ctx where "built = (style_prefix ps @ ctx @ viewpoint_text (viewpoint ps)) @ aspect_text ps
               @ (colors_text ps @ dimensions_text ps @ prompt_text ps @ quality_suffix)"
    by (auto simp: buildPrompt_def split: sum.splits)
  then show ?thesis
    by (metis sublist_appendI)
qed

text \<open>
  For each of the six aspect ratios of the table the built prompt contains the sentence with
  that width and height; for a ratio that is neither in the table nor the name of an inherited
  property it contains the sentence with 1024x1024.
\<close>

theorem table_ratio_embedded:
  assumes "buildPrompt ps = Inr built"
  shows
    "(aspectRatio ps = ''2:3'' \<longrightarrow>
        includes_str built ''The image should be 688x1024 pixels (2:3 aspect ratio). '') \<and>
     (aspectRatio ps = ''1:1'' \<longrightarrow>
        includes_str built ''The image should be 1024x1024 pixels (1:1 aspect ratio). '') \<and>
     (aspectRatio ps = ''9:16'' \<longrightarrow>
        includes_str built ''The image should be 576x1024 pixels (9:16 aspect ratio). '') \<and>
     (aspectRatio ps = ''4:3'' \<longrightarrow>
        includes_str built ''The image should be 1024x768 pixels (4:3 aspect ratio). '') \<and>
     (aspectRatio ps = ''3:2'' \<longrightarrow>
        includes_str built ''The image should be 1024x688 pixels (3:2 aspect ratio). '') \<and>
     (aspectRatio ps = ''16:9'' \<longrightarrow>
        includes_str built ''The image should be 1024x576 pixels (16:9 aspect ratio). '') \<and>
     (aspectRatio ps \<notin> fst ` set ratioMap \<and> aspectRatio ps \<notin> set object_prototype_keys \<longrightarrow>
        includes_str built
          (''The image should be 1024x1024 pixels ('' @ aspectRatio ps @ '' aspect ratio). ''))"
proof -
  have other: "getImageDimensions (aspectRatio ps) = Dims 1024 1024"
    if "aspectRatio ps \<notin> fst ` set ratioMap" "aspectRatio ps \<notin> set object_prototype_keys"
  proof -
    from that(1) have "map_of ratioMap (aspectRatio ps) = None"
      by (simp add: map_of_eq_None_iff)
    with that(2) show ?thesis
      by (simp add: getImageDimensions_def)
  qed
  show ?thesis
    using buildPrompt_embeds_aspect_text[OF assms] other
    by (auto simp: includes_str_def aspect_text_def getImageDimensions_def ratioMap_def
        show_nat_table)
qed

lemma buildPrompt_returns: "prompt ps \<noteq> None \<Longrightarrow> \<exists>s. buildPrompt ps = Inr s"
  by (auto simp: buildPrompt_def type_context_def wantsPartialCharacter_def)

theorem table_ratio_embedded_witness:
  "(case buildPrompt (sprite_params (knight \<lparr> body_aspectRatio := Some ''2:3'' \<rparr>)) of
      Inl e \<Rightarrow> False
    | Inr built \<Rightarrow>
        includes_str built ''The image should be 688x1024 pixels (2:3 aspect ratio). '') \<and>
   (case buildPrompt (sprite_params (knight \<lparr> body_aspectRatio := Some ''5:4'' \<rparr>)) of
      Inl e \<Rightarrow> False
    | Inr built \<Rightarrow>
        includes_str built ''The image should be 1024x1024 pixels (5:4 aspect ratio). '')"
proof -
  let ?a = "sprite_params (knight \<lparr> body_aspectRatio := Some ''2:3'' \<rparr>)"
  let ?b = "sprite_params (knight \<lparr> body_aspectRatio := Some ''5:4'' \<rparr>)"
  obtain x where x: "buildPrompt ?a = Inr x"
    using buildPrompt_returns[of ?a] by (auto simp: sprite_params_def knight_def)
  obtain y where y: "buildPrompt ?b = Inr y"
    using buildPrompt_returns[of ?b] by (auto simp: sprite_params_def knight_def)
  have "includes_str x ''The image should be 688x1024 pixels (2:3 aspect ratio). ''"
    using table_ratio_embedded[OF x] by (simp add: sprite_params_def dflt_def)
  moreover have "includes_str y ''The image should be 1024x1024 pixels (5:4 aspect ratio). ''"
    using table_ratio_embedded[OF y]
    by (simp add: sprite_params_def dflt_def ratioMap_def object_prototype_keys_def)
  ultimately show ?thesis
    using x y by simp
qed

text \<open>
  When the refinement call throws, the refinement stage ends as \<open>buildPrompt(context)\<close>
  does, in the world the call left; for a context with a prompt that is a built prompt.
\<close>

theorem refinement_fallback:
  assumes "callReplicate tok ''google/gemini-2.5-flash''
             (RefineInput u (prompt_context.truncate ctx)) w = Some (Inl e, w')"
  shows "refinePromptWithIntelligence (Some u) ctx tok w = Some (buildPrompt ctx, w') \<and>
         (prompt ctx \<noteq> None \<longrightarrow> (\<exists>s. buildPrompt ctx = Inr s))"
proof
  show "refinePromptWithIntelligence (Some u) ctx tok w = Some (buildPrompt ctx, w')"
    using assms
    by (cases "buildPrompt ctx")
       (simp_all add: refinePromptWithIntelligence_def wantsPartialCharacter_def bind_io_def
        lift_io_def return_io_def throw_io_def catch_io_def)
  show "prompt ctx \<noteq> None \<longrightarrow> (\<exists>s. buildPrompt ctx = Inr s)"
    by (auto simp: buildPrompt_def type_context_def wantsPartialCharacter_def)
qed

theorem refinement_fallback_witness:
  "refinePromptWithIntelligence (Some ''a knight'') (sprite_params knight) ''tok''
     (world_of [Responds (http_failure 422), Responds (http_failure 500)])
   = Some (buildPrompt (sprite_params knight),
       \<lparr> script = [],
         log = [legacy_request ''tok'' ''google/gemini-2.5-flash''
                  (RefineInput ''a knight'' (prompt_context.truncate (sprite_params knight))),
                create_request ''tok'' ''google/gemini-2.5-flash''
                  (RefineInput ''a knight'' (prompt_context.truncate (sprite_params knight)))] \<rparr>) \<and>
   (case buildPrompt (sprite_params knight) of Inl e \<Rightarrow> False | Inr s \<Rightarrow> True)"
proof -
  let ?w' = "\<lparr> script = [],
         log = [legacy_request ''tok'' ''google/gemini-2.5-flash''
                  (RefineInput ''a knight'' (prompt_context.truncate (sprite_params knight))),
                create_request ''tok'' ''google/gemini-2.5-flash''
                  (RefineInput ''a knight'' (prompt_context.truncate (sprite_params knight)))] \<rparr>"
  have "callReplicate ''tok'' ''google/gemini-2.5-flash''
          (RefineInput ''a knight'' (prompt_context.truncate (sprite_params knight)))
          (world_of [Responds (http_failure 422), Responds (http_failure 500)])
        = Some (Inl (Error ''Replicate API error: 500 - {}''), ?w')"
    by (simp add: callReplicate_def io_defs http_failure_def world_of_def error_json_text_def)
       (code_simp)
  from refinement_fallback[OF this] show ?thesis
    by (auto simp: sprite_params_def knight_def split: sum.splits)
qed

end
